theory Spec2Isabelle
  imports Main "HOL-Library.Word"
begin

section \<open>The per-cluster controller of the etcd operator\<close>

text \<open>
  A shallow embedding of \<^verbatim>\<open>pkg/cluster/cluster.go\<close> (the controller of one etcd cluster) and
  of \<^verbatim>\<open>handleBackup\<close> of the backup controller.

  Conventions of the embedding.
  \<^item> A Go struct is a record with the Go field names; a pointer that may be \<^verbatim>\<open>nil\<close> is an
    \<open>option\<close>; a Go \<^verbatim>\<open>string\<close>-based enumeration (\<^verbatim>\<open>ClusterPhase\<close>,
    \<^verbatim>\<open>clusterEventType\<close>, \<^verbatim>\<open>BackupStorageType\<close>) is a \<open>string\<close> with named constants,
    so that the \<^verbatim>\<open>default:\<close> branches of the code stay reachable.
  \<^item> Go's \<^verbatim>\<open>int\<close> and \<^verbatim>\<open>int64\<close> are 64-bit words.
  \<^item> \<^verbatim>\<open>reflect.DeepEqual\<close> on two values of the same record type is HOL equality of the
    records. It tells a \<^verbatim>\<open>nil\<close> slice from an empty one, so a slice inside a value that
    the code compares (the fields of the status) is a \<open>slice\<close>: \<open>None\<close> is the \<^verbatim>\<open>nil\<close>
    slice and \<open>Some []\<close> the empty one. A slice that is only read and appended to (the pod
    lists) is a list.
  \<^item> The controller's state is the record \<open>Cluster\<close>, passed explicitly and returned updated.
    Every call that leaves the controller (record client, platform client, backup manager,
    garbage collector, health check) appends an \<open>effect\<close> to the field \<open>trace\<close>; the answer to
    the call is read from the environment \<open>env\<close>, as a function of the trace so far and of the
    arguments, so two calls with the same arguments may answer differently.
  \<^item> Code that \<^verbatim>\<open>cluster.go\<close> calls and that is in another file (the \<^verbatim>\<open>spec\<close>,
    \<^verbatim>\<open>k8sutil\<close>, \<^verbatim>\<open>etcdutil\<close> packages, the backup manager, \<^verbatim>\<open>reconcile\<close>,
    \<^verbatim>\<open>disasterRecovery\<close>, ...) is a field of \<open>env\<close>.
  \<^item> A returned Go \<^verbatim>\<open>error\<close> is an \<open>err option\<close> (\<open>None\<close> is \<^verbatim>\<open>nil\<close>); a panic and a
    process exit are constructors of \<open>outcome\<close>.
  \<^item> Calls to the loggers and to the metrics are not part of the model.
\<close>

subsection \<open>Errors and outcomes\<close>

text \<open>A Go error value: an ordinary error with its message, or the controller's fatal error.\<close>

datatype err = Err string | FatalErr string

fun Error :: "err \<Rightarrow> string" where
  "Error (Err m) = m"
| "Error (FatalErr m) = m"

text \<open>How a call ends: it returns, it panics, or the process exits (\<^verbatim>\<open>logrus.Fatalf\<close>).\<close>

datatype 'a outcome = Returns 'a | Panics string | Exits string

subsection \<open>The data model\<close>

type_synonym int64 = "64 word"
type_synonym goint = "64 word"
type_synonym UID = string

text \<open>A Go slice where \<^verbatim>\<open>nil\<close> matters, and \<^verbatim>\<open>append\<close> of one element: appending to the
  \<^verbatim>\<open>nil\<close> slice gives a slice that is not \<^verbatim>\<open>nil\<close>.\<close>

type_synonym 'a slice = "'a list option"

fun append_slice :: "'a slice \<Rightarrow> 'a \<Rightarrow> 'a slice" where
  "append_slice None x = Some [x]"
| "append_slice (Some xs) x = Some (xs @ [x])"

type_synonym ClusterPhase = string

text \<open>Modelled from the spec: the phase constants of the absent package \<^verbatim>\<open>spec\<close>; the persisted
  phase strings are exactly "Creating", "Running", "Failed", and the phase None is the phase of a
  record that has no status yet (the empty string).\<close>

definition ClusterPhaseNone :: ClusterPhase where "ClusterPhaseNone = ''''"
definition ClusterPhaseCreating :: ClusterPhase where "ClusterPhaseCreating = ''Creating''"
definition ClusterPhaseRunning :: ClusterPhase where "ClusterPhaseRunning = ''Running''"
definition ClusterPhaseFailed :: ClusterPhase where "ClusterPhaseFailed = ''Failed''"

type_synonym BackupStorageType = string

text \<open>Modelled from the spec: a backup policy has a schedule (interval in seconds and the
  maximal number of backups), a storage type and a storage-specific source.\<close>

record BackupPolicy =
  BackupIntervalInSecond :: goint
  MaxBackups :: goint
  StorageType :: BackupStorageType
  StorageSource :: string

text \<open>The TLS block: the name of the operator's client secret (empty when there is none).\<close>

record TLSPolicy =
  OperatorSecret :: string

record PodPolicy =
  PersistentVolumeClaimSpec :: "string option"
  HostPath :: "string option"

record SelfHostedPolicy =
  BootMemberClientEndpoint :: string

record ClusterSpec =
  Size :: goint
  Version :: string
  Paused :: bool
  TLS :: "TLSPolicy option"
  Pod :: "PodPolicy option"
  Backup :: "BackupPolicy option"
  SelfHosted :: "SelfHostedPolicy option"

record MembersStatus =
  Ready :: "string slice"
  Unready :: "string slice"

record ClusterStatus =
  Phase :: ClusterPhase
  Reason :: string
  Conditions :: "string slice"
  Size :: goint
  Members :: MembersStatus
  BackupServiceStatus :: "string option"

record EtcdCluster =
  Name :: string
  Namespace :: string
  UID :: UID
  Spec :: ClusterSpec
  Status :: ClusterStatus

record Member =
  Name :: string
  Namespace :: string
  SecurePeer :: bool
  SecureClient :: bool

text \<open>\<^verbatim>\<open>etcdutil.MemberSet\<close> is a Go map from member names to members; the list gives the
  order in which a \<^verbatim>\<open>range\<close> visits it.\<close>

type_synonym MemberSet = "Member list"

datatype PodPhase = PodPending | PodRunning | PodSucceeded | PodFailed | PodUnknown

record OwnerReference =
  UID :: UID

record PodStatus =
  Phase :: PodPhase

record Pod =
  Name :: string
  OwnerReferences :: "OwnerReference list"
  Status :: PodStatus

record DeleteOptions =
  GracePeriodSeconds :: "int64 option"

datatype Volume = PVCVolume string | HostPathVolume string | EmptyDirVolume

text \<open>The pod that \<^verbatim>\<open>createPod\<close> builds with the absent \<^verbatim>\<open>k8sutil\<close> constructors, as the
  arguments it is built from.\<close>

record NewPod =
  pod_member :: Member
  pod_peers :: MemberSet
  pod_clusterName :: string
  pod_state :: string
  pod_token :: string
  pod_spec :: ClusterSpec
  pod_owner :: UID
  pod_recovery :: bool
  pod_volume :: Volume

datatype backupManager = BackupManager nat
datatype tlsConfig = TLSConfig string

type_synonym clusterEventType = string

definition eventDeleteCluster :: clusterEventType where "eventDeleteCluster = ''Delete''"
definition eventModifyCluster :: clusterEventType where "eventModifyCluster = ''Modify''"

text \<open>The field \<^verbatim>\<open>typ\<close> of the Go struct is \<open>evtyp\<close> here.\<close>

record clusterEvent =
  evtyp :: clusterEventType
  cluster :: "EtcdCluster option"

subsection \<open>Effects and the controller's state\<close>

datatype effect =
    CRUpdate EtcdCluster
  | SecretGet string string
  | PodsList string string
  | PodsCreate string NewPod
  | PodsDelete string string DeleteOptions
  | PVCCreate string Member string
  | CreateClientService string string UID
  | CreatePeerService string string UID
  | CollectCluster string UID
  | NewBackupManager EtcdCluster
  | BMSetup backupManager
  | BMUpgradeIfNeeded backupManager
  | BMDeleteBackupSidecar backupManager
  | BMUpdateSidecar backupManager EtcdCluster
  | BMGetStatus backupManager
  | CheckHealth string "tlsConfig option"
  | UUIDNew
  | Other string

record Cluster =
  cluster :: EtcdCluster
  status :: ClusterStatus
  memberCounter :: goint
  eventCh :: "clusterEvent list"
  eventChCap :: nat
  stopCh :: bool
  members :: "MemberSet option"
  bm :: "backupManager option"
  tlsConfig :: "tlsConfig option"
  trace :: "effect list"

text \<open>The environment: the answers of the external collaborators, and the functions that
  \<^verbatim>\<open>cluster.go\<close> calls from other files.\<close>

record env =
  Validate :: "ClusterSpec \<Rightarrow> err option"
  errCreatedCluster :: err
  EtcdCRCli_Update :: "effect list \<Rightarrow> EtcdCluster \<Rightarrow> err + EtcdCluster"
  GenerateTLSConfig :: "effect list \<Rightarrow> string \<Rightarrow> string \<Rightarrow> err + tlsConfig"
  Pods_List :: "effect list \<Rightarrow> string \<Rightarrow> string \<Rightarrow> err + Pod list"
  Pods_Create :: "effect list \<Rightarrow> string \<Rightarrow> NewPod \<Rightarrow> err option"
  Pods_Delete :: "effect list \<Rightarrow> string \<Rightarrow> string \<Rightarrow> DeleteOptions \<Rightarrow> err option"
  PVC_Create :: "effect list \<Rightarrow> string \<Rightarrow> Member \<Rightarrow> string \<Rightarrow> err option"
  IsKubernetesResourceNotFoundError :: "err \<Rightarrow> bool"
  CreateClientService_res :: "effect list \<Rightarrow> string \<Rightarrow> string \<Rightarrow> UID \<Rightarrow> err option"
  CreatePeerService_res :: "effect list \<Rightarrow> string \<Rightarrow> string \<Rightarrow> UID \<Rightarrow> err option"
  newBackupManager :: "effect list \<Rightarrow> EtcdCluster \<Rightarrow> err + backupManager"
  bm_setup :: "effect list \<Rightarrow> backupManager \<Rightarrow> err option"
  bm_upgradeIfNeeded :: "effect list \<Rightarrow> backupManager \<Rightarrow> err option"
  bm_updateSidecar :: "effect list \<Rightarrow> backupManager \<Rightarrow> EtcdCluster \<Rightarrow> err option"
  bm_getStatus :: "effect list \<Rightarrow> backupManager \<Rightarrow> err + string"
  backupServiceStatusToTPRBackupServiceStatu :: "string \<Rightarrow> string option"
  CheckHealth_res :: "effect list \<Rightarrow> string \<Rightarrow> tlsConfig option \<Rightarrow> bool"
  ClientURL :: "Member \<Rightarrow> string"
  CreateMemberName :: "string \<Rightarrow> goint \<Rightarrow> string"
  uuid_New :: "effect list \<Rightarrow> string"
  IsSecurePeer :: "TLSPolicy option \<Rightarrow> bool"
  Copy :: "ClusterStatus \<Rightarrow> ClusterStatus"
  PauseControl :: "ClusterStatus \<Rightarrow> ClusterStatus"
  Control :: "ClusterStatus \<Rightarrow> ClusterStatus"
  AppendScalingUpCondition :: "goint \<Rightarrow> goint \<Rightarrow> ClusterStatus \<Rightarrow> ClusterStatus"
  podsToMemberSet :: "Pod list \<Rightarrow> bool \<Rightarrow> MemberSet"
  newSelfHostedSeedMember :: "Cluster \<Rightarrow> err option \<times> Cluster"
  migrateBootMember :: "Cluster \<Rightarrow> err option \<times> Cluster"
  disasterRecovery :: "MemberSet option \<Rightarrow> Cluster \<Rightarrow> err option \<times> Cluster"
  updateMembers :: "MemberSet \<Rightarrow> Cluster \<Rightarrow> err option \<times> Cluster"
  reconcile :: "Pod list \<Rightarrow> Cluster \<Rightarrow> err option \<times> Cluster"

text \<open>Modelled from the spec: the setters of the absent \<^verbatim>\<open>ClusterStatus\<close> type, which store
  the phase and the last reason.\<close>

definition SetPhase :: "ClusterPhase \<Rightarrow> ClusterStatus \<Rightarrow> ClusterStatus" where
  "SetPhase p cs = cs\<lparr>ClusterStatus.Phase := p\<rparr>"

definition SetReason :: "string \<Rightarrow> ClusterStatus \<Rightarrow> ClusterStatus" where
  "SetReason r cs = cs\<lparr>Reason := r\<rparr>"

text \<open>Modelled from the spec: an error is fatal when it is the controller's fatal error;
  \<^verbatim>\<open>nil\<close> is not fatal.\<close>

fun isFatalError :: "err option \<Rightarrow> bool" where
  "isFatalError (Some (FatalErr m)) = True"
| "isFatalError _ = False"

text \<open>Modelled from the spec: client security is enabled when the TLS block names the
  operator's secret; the secret that \<^verbatim>\<open>refreshTLSConfig\<close> then reads is defined.\<close>

definition IsSecureClient :: "TLSPolicy option \<Rightarrow> bool" where
  "IsSecureClient tp = (case tp of None \<Rightarrow> False | Some t \<Rightarrow> OperatorSecret t \<noteq> [])"

subsection \<open>The status reporter\<close>

definition isSecurePeer :: "env \<Rightarrow> Cluster \<Rightarrow> bool" where
  "isSecurePeer e c = IsSecurePeer e (TLS (Spec (Cluster.cluster c)))"

definition isSecureClient :: "Cluster \<Rightarrow> bool" where
  "isSecureClient c = IsSecureClient (TLS (Spec (Cluster.cluster c)))"

definition refreshTLSConfig :: "env \<Rightarrow> Cluster \<Rightarrow> err option \<times> Cluster" where
  "refreshTLSConfig e c =
     (if isSecureClient c then
        (let secret = (case TLS (Spec (Cluster.cluster c)) of Some t \<Rightarrow> OperatorSecret t | None \<Rightarrow> []);
             ns = EtcdCluster.Namespace (Cluster.cluster c);
             c1 = c\<lparr>trace := trace c @ [SecretGet secret ns]\<rparr>
         in case GenerateTLSConfig e (trace c) secret ns of
              Inl er \<Rightarrow> (Some er, c1)
            | Inr cfg \<Rightarrow> (None, c1\<lparr>tlsConfig := Some cfg\<rparr>))
      else (None, c))"

text \<open>\<^verbatim>\<open>c.cluster\<close> is a pointer, so \<^verbatim>\<open>newCluster := c.cluster\<close> is the same record and the
  assignment \<^verbatim>\<open>newCluster.Status = c.status\<close> changes \<^verbatim>\<open>c.cluster\<close> before the update is
  sent; the error return leaves that assignment in place.\<close>

definition updateCRStatus :: "env \<Rightarrow> Cluster \<Rightarrow> err option \<times> Cluster" where
  "updateCRStatus e c =
     (if EtcdCluster.Status (Cluster.cluster c) = status c then (None, c)
      else
        (let c1 = c\<lparr>Cluster.cluster := (Cluster.cluster c)\<lparr>EtcdCluster.Status := status c\<rparr>\<rparr>;
             c2 = c1\<lparr>trace := trace c1 @ [CRUpdate (Cluster.cluster c1)]\<rparr>
         in case EtcdCRCli_Update e (trace c1) (Cluster.cluster c1) of
              Inl er \<Rightarrow> (Some (Err (''failed to update CR status: '' @ Error er)), c2)
            | Inr newCluster \<Rightarrow> (None, c2\<lparr>Cluster.cluster := newCluster\<rparr>)))"

subsection \<open>Setup and creation\<close>

definition isPodPVEnabled :: "Cluster \<Rightarrow> bool" where
  "isPodPVEnabled c =
     (case Pod (Spec (Cluster.cluster c)) of
        Some podPolicy \<Rightarrow> PersistentVolumeClaimSpec podPolicy \<noteq> None
      | None \<Rightarrow> False)"

definition isPodHostPathEnabled :: "Cluster \<Rightarrow> bool" where
  "isPodHostPathEnabled c =
     (case Pod (Spec (Cluster.cluster c)) of
        Some podPolicy \<Rightarrow> HostPath podPolicy \<noteq> None
      | None \<Rightarrow> False)"

text \<open>The two dereferences \<^verbatim>\<open>*c.cluster.Spec.Pod.PersistentVolumeClaimSpec\<close> and
  \<^verbatim>\<open>*c.cluster.Spec.Pod.HostPath\<close>; \<^verbatim>\<open>createPod\<close> reads each only under the guard that makes
  it defined, so the empty string of the other cases is never used.\<close>

definition podPVCSpec :: "Cluster \<Rightarrow> string" where
  "podPVCSpec c =
     (case Pod (Spec (Cluster.cluster c)) of
        Some podPolicy \<Rightarrow> (case PersistentVolumeClaimSpec podPolicy of Some s \<Rightarrow> s | None \<Rightarrow> [])
      | None \<Rightarrow> [])"

definition podHostPath :: "Cluster \<Rightarrow> string" where
  "podHostPath c =
     (case Pod (Spec (Cluster.cluster c)) of
        Some podPolicy \<Rightarrow> (case HostPath podPolicy of Some s \<Rightarrow> s | None \<Rightarrow> [])
      | None \<Rightarrow> [])"

definition createPod ::
  "env \<Rightarrow> MemberSet \<Rightarrow> Member \<Rightarrow> string \<Rightarrow> bool \<Rightarrow> Cluster \<Rightarrow> err option \<times> Cluster" where
  "createPod e ms m st needRecovery c =
     (let (tok, c1) = (if st = ''new''
                       then (uuid_New e (trace c), c\<lparr>trace := trace c @ [UUIDNew]\<rparr>)
                       else ([], c));
          cl = Cluster.cluster c1;
          ns = EtcdCluster.Namespace cl;
          pod = \<lparr>pod_member = m, pod_peers = ms, pod_clusterName = EtcdCluster.Name cl,
                 pod_state = st, pod_token = tok, pod_spec = Spec cl,
                 pod_owner = EtcdCluster.UID cl, pod_recovery = needRecovery,
                 pod_volume = EmptyDirVolume\<rparr>;
          submit = (\<lambda>p c2. (Pods_Create e (trace c2) ns p, c2\<lparr>trace := trace c2 @ [PodsCreate ns p]\<rparr>))
      in if isPodPVEnabled c1 then
           (let c2 = c1\<lparr>trace := trace c1 @ [PVCCreate ns m (podPVCSpec c1)]\<rparr>
            in case PVC_Create e (trace c1) ns m (podPVCSpec c1) of
                 Some er \<Rightarrow>
                   (Some (Err (''failed to create PVC for member ('' @ Member.Name m @ ''): '' @ Error er)), c2)
               | None \<Rightarrow> submit (pod\<lparr>pod_volume := PVCVolume (podPVCSpec c1)\<rparr>) c2)
         else if isPodHostPathEnabled c1 then
           submit (pod\<lparr>pod_volume := HostPathVolume (podHostPath c1)\<rparr>) c1
         else submit pod c1)"

definition startSeedMember :: "env \<Rightarrow> bool \<Rightarrow> Cluster \<Rightarrow> err option \<times> Cluster" where
  "startSeedMember e recoverFromBackup c =
     (let m = \<lparr>Member.Name = CreateMemberName e (EtcdCluster.Name (Cluster.cluster c)) (memberCounter c),
               Member.Namespace = EtcdCluster.Namespace (Cluster.cluster c),
               SecurePeer = isSecurePeer e c,
               SecureClient = isSecureClient c\<rparr>;
          ms = [m]
      in case createPod e ms m ''new'' recoverFromBackup c of
           (Some er, c1) \<Rightarrow>
             (Some (Err (''failed to create seed member ('' @ Member.Name m @ ''): '' @ Error er)), c1)
         | (None, c1) \<Rightarrow>
             (None, c1\<lparr>memberCounter := memberCounter c1 + 1, members := Some ms\<rparr>))"

definition bootstrap :: "env \<Rightarrow> Cluster \<Rightarrow> err option \<times> Cluster" where
  "bootstrap e c = startSeedMember e False c"

definition recover :: "env \<Rightarrow> Cluster \<Rightarrow> err option \<times> Cluster" where
  "recover e c = startSeedMember e True c"

definition prepareSeedMember :: "env \<Rightarrow> Cluster \<Rightarrow> err option \<times> Cluster" where
  "prepareSeedMember e c =
     (let c1 = c\<lparr>status := AppendScalingUpCondition e 0 (ClusterSpec.Size (Spec (Cluster.cluster c))) (status c)\<rparr>
      in case (case SelfHosted (Spec (Cluster.cluster c1)) of
                 Some sh \<Rightarrow>
                   if length (BootMemberClientEndpoint sh) = 0
                   then newSelfHostedSeedMember e c1
                   else migrateBootMember e c1
               | None \<Rightarrow> bootstrap e c1) of
           (Some er, c2) \<Rightarrow> (Some er, c2)
         | (None, c2) \<Rightarrow> (None, c2\<lparr>status := (status c2)\<lparr>ClusterStatus.Size := 1\<rparr>\<rparr>))"

definition setupServices :: "env \<Rightarrow> Cluster \<Rightarrow> err option \<times> Cluster" where
  "setupServices e c =
     (let cl = Cluster.cluster c;
          c1 = c\<lparr>trace := trace c @ [CreateClientService (EtcdCluster.Name cl) (EtcdCluster.Namespace cl) (EtcdCluster.UID cl)]\<rparr>
      in case CreateClientService_res e (trace c) (EtcdCluster.Name cl) (EtcdCluster.Namespace cl) (EtcdCluster.UID cl) of
           Some er \<Rightarrow> (Some er, c1)
         | None \<Rightarrow>
             (CreatePeerService_res e (trace c1) (EtcdCluster.Name cl) (EtcdCluster.Namespace cl) (EtcdCluster.UID cl),
              c1\<lparr>trace := trace c1 @ [CreatePeerService (EtcdCluster.Name cl) (EtcdCluster.Namespace cl) (EtcdCluster.UID cl)]\<rparr>))"

definition create :: "env \<Rightarrow> Cluster \<Rightarrow> err option \<times> Cluster" where
  "create e c =
     (let c0 = c\<lparr>status := SetPhase ClusterPhaseCreating (status c)\<rparr>
      in case updateCRStatus e c0 of
           (Some er, c1) \<Rightarrow>
             (Some (Err (''cluster create: failed to update cluster phase ('' @ ClusterPhaseCreating
                         @ ''): '' @ Error er)), c1)
         | (None, c1) \<Rightarrow>
             (let c2 = c1\<lparr>trace := trace c1 @ [CollectCluster (EtcdCluster.Name (Cluster.cluster c1))
                                                               (EtcdCluster.UID (Cluster.cluster c1))]\<rparr>
              in case (case bm c2 of
                         Some b \<Rightarrow> (bm_setup e (trace c2) b, c2\<lparr>trace := trace c2 @ [BMSetup b]\<rparr>)
                       | None \<Rightarrow> (None, c2)) of
                   (Some er, c3) \<Rightarrow> (Some er, c3)
                 | (None, c3) \<Rightarrow>
                     (case (if Backup (Spec (Cluster.cluster c3)) = None
                            then prepareSeedMember e c3 else (None, c3)) of
                        (Some er, c4) \<Rightarrow> (Some er, c4)
                      | (None, c4) \<Rightarrow>
                          (case setupServices e c4 of
                             (Some er, c5) \<Rightarrow>
                               (Some (Err (''cluster create: fail to create client service LB: '' @ Error er)), c5)
                           | (None, c5) \<Rightarrow> (None, c5)))))"

text \<open>The \<^verbatim>\<open>switch\<close> of \<^verbatim>\<open>setup\<close> either leaves the function (\<open>Inl\<close>: an error return, or
  the panic of the Failed phase) or sets \<^verbatim>\<open>shouldCreateCluster\<close> (\<open>Inr\<close>). On an error of
  \<^verbatim>\<open>newBackupManager\<close> the manager it returns with the error is \<^verbatim>\<open>nil\<close>. The method
  \<^verbatim>\<open>(c *Cluster) setup\<close> is \<open>Cluster_setup\<close> here, since its name is a command of Isabelle.\<close>

definition Cluster_setup :: "env \<Rightarrow> Cluster \<Rightarrow> err option outcome \<times> Cluster" where
  "Cluster_setup e c =
     (case Validate e (Spec (Cluster.cluster c)) of
        Some er \<Rightarrow> (Returns (Some (Err (''invalid cluster spec: '' @ Error er))), c)
      | None \<Rightarrow>
         (case (if ClusterStatus.Phase (status c) = ClusterPhaseNone then Inr True
                else if ClusterStatus.Phase (status c) = ClusterPhaseCreating
                  then Inl (Returns (Some (errCreatedCluster e)), c)
                else if ClusterStatus.Phase (status c) = ClusterPhaseRunning then Inr False
                else if ClusterStatus.Phase (status c) = ClusterPhaseFailed
                  then Inl (Panics ''for Failed phase, we update the status to Running, and panic'',
                            snd (updateCRStatus e
                                   (c\<lparr>status := (status c)\<lparr>ClusterStatus.Phase := ClusterPhaseRunning\<rparr>\<rparr>)))
                else Inl (Returns (Some (Err (''unexpected cluster phase: '' @ ClusterStatus.Phase (status c)))), c)) of
            Inl r \<Rightarrow> r
          | Inr shouldCreateCluster \<Rightarrow>
             (case refreshTLSConfig e c of
                (Some er, c1) \<Rightarrow> (Returns (Some (Err (''faled to refresh tlsConfig: '' @ Error er))), c1)
              | (None, c1) \<Rightarrow>
                 (case (case Backup (Spec (Cluster.cluster c1)) of
                          None \<Rightarrow> (None, c1)
                        | Some bp \<Rightarrow>
                           (let c2 = c1\<lparr>trace := trace c1 @ [NewBackupManager (Cluster.cluster c1)]\<rparr>
                            in case newBackupManager e (trace c1) (Cluster.cluster c1) of
                                 Inl er \<Rightarrow> (Some er, c2\<lparr>bm := None\<rparr>)
                               | Inr b \<Rightarrow>
                                  (if \<not> shouldCreateCluster
                                   then (bm_upgradeIfNeeded e (trace c2) b,
                                         c2\<lparr>bm := Some b, trace := trace c2 @ [BMUpgradeIfNeeded b]\<rparr>)
                                   else (None, c2\<lparr>bm := Some b\<rparr>)))) of
                    (Some er, c3) \<Rightarrow> (Returns (Some er), c3)
                  | (None, c3) \<Rightarrow>
                     (if shouldCreateCluster
                      then (case create e c3 of (r, c4) \<Rightarrow> (Returns r, c4))
                      else (Returns None, c3))))))"

subsection \<open>Construction and event ingress\<close>

text \<open>\<^verbatim>\<open>New\<close> builds the controller: the event channel is made with capacity 100 and the stop
  channel is open. The field \<open>stopCh\<close> tells whether a receive from the stop channel can
  proceed (the channel is closed); \<open>eventCh\<close> is the buffer of the event channel, oldest event
  first.\<close>

definition New :: "env \<Rightarrow> EtcdCluster \<Rightarrow> Cluster" where
  "New e cl =
     \<lparr>Cluster.cluster = cl, status = Copy e (EtcdCluster.Status cl), memberCounter = 0,
      eventCh = [], eventChCap = 100, stopCh = False, members = None, bm = None,
      tlsConfig = None, trace = []\<rparr>"

text \<open>The \<^verbatim>\<open>select\<close> of \<^verbatim>\<open>send\<close> has two cases and no \<^verbatim>\<open>default\<close>: the send on the event
  channel, ready when the buffer has room, and the receive from the stop channel. Go runs one
  of the ready cases; with no ready case the statement blocks.\<close>

datatype send_case = SendEventCh | RecvStopCh

definition send_ready :: "Cluster \<Rightarrow> send_case list" where
  "send_ready c =
     (if length (eventCh c) < eventChCap c then [SendEventCh] else [])
     @ (if stopCh c then [RecvStopCh] else [])"

fun send_fire :: "clusterEvent \<Rightarrow> Cluster \<Rightarrow> send_case \<Rightarrow> Cluster" where
  "send_fire ev c SendEventCh = c\<lparr>eventCh := eventCh c @ [ev]\<rparr>"
| "send_fire ev c RecvStopCh = c"

text \<open>The result of a call of \<^verbatim>\<open>send\<close>: it blocks the caller in this state of the channels, or
  it returns in one of the listed states.\<close>

datatype send_result = Blocks | Returned "Cluster list"

definition send :: "clusterEvent \<Rightarrow> Cluster \<Rightarrow> send_result" where
  "send ev c = (if send_ready c = [] then Blocks else Returned (map (send_fire ev c) (send_ready c)))"

definition Delete :: "Cluster \<Rightarrow> send_result" where
  "Delete c = send \<lparr>evtyp = eventDeleteCluster, clusterEvent.cluster = None\<rparr> c"

definition Update :: "EtcdCluster \<Rightarrow> Cluster \<Rightarrow> send_result" where
  "Update cl c = send \<lparr>evtyp = eventModifyCluster, clusterEvent.cluster = Some cl\<rparr> c"

subsection \<open>Pods\<close>

definition podTerminationGracePeriod :: int64 where
  "podTerminationGracePeriod = 5"

definition NewDeleteOptions :: "int64 \<Rightarrow> DeleteOptions" where
  "NewDeleteOptions grace = \<lparr>GracePeriodSeconds = Some grace\<rparr>"

definition removePod :: "env \<Rightarrow> string \<Rightarrow> Cluster \<Rightarrow> err option \<times> Cluster" where
  "removePod e name c =
     (let ns = EtcdCluster.Namespace (Cluster.cluster c);
          opts = NewDeleteOptions podTerminationGracePeriod;
          c1 = c\<lparr>trace := trace c @ [PodsDelete ns name opts]\<rparr>
      in case Pods_Delete e (trace c) ns name opts of
           Some er \<Rightarrow>
             if \<not> IsKubernetesResourceNotFoundError e er then (Some er, c1) else (None, c1)
         | None \<Rightarrow> (None, c1))"

fun pollPods_loop :: "UID \<Rightarrow> Pod list \<Rightarrow> Pod list \<Rightarrow> Pod list \<Rightarrow> Pod list \<times> Pod list" where
  "pollPods_loop uid [] running pending = (running, pending)"
| "pollPods_loop uid (pod # items) running pending =
     (if length (OwnerReferences pod) < 1 then pollPods_loop uid items running pending
      else if OwnerReference.UID (OwnerReferences pod ! 0) \<noteq> uid
        then pollPods_loop uid items running pending
      else (case PodStatus.Phase (Pod.Status pod) of
              PodRunning \<Rightarrow> pollPods_loop uid items (running @ [pod]) pending
            | PodPending \<Rightarrow> pollPods_loop uid items running (pending @ [pod])
            | _ \<Rightarrow> pollPods_loop uid items running pending))"

definition pollPods :: "env \<Rightarrow> Cluster \<Rightarrow> (Pod list \<times> Pod list \<times> err option) \<times> Cluster" where
  "pollPods e c =
     (let ns = EtcdCluster.Namespace (Cluster.cluster c);
          nm = EtcdCluster.Name (Cluster.cluster c);
          c1 = c\<lparr>trace := trace c @ [PodsList ns nm]\<rparr>
      in case Pods_List e (trace c) ns nm of
           Inl er \<Rightarrow> (([], [], Some (Err (''failed to list running pods: '' @ Error er))), c1)
         | Inr items \<Rightarrow>
             (case pollPods_loop (EtcdCluster.UID (Cluster.cluster c)) items [] [] of
                (running, pending) \<Rightarrow> ((running, pending, None), c1)))"

text \<open>\<^verbatim>\<open>var ready, unready []string\<close> declares two \<^verbatim>\<open>nil\<close> slices; a slice that no name is
  appended to is stored into the status as \<^verbatim>\<open>nil\<close>.\<close>

fun updateMemberStatus_loop ::
  "env \<Rightarrow> tlsConfig option \<Rightarrow> Member list \<Rightarrow> string slice \<Rightarrow> string slice \<Rightarrow> effect list
     \<Rightarrow> string slice \<times> string slice \<times> effect list" where
  "updateMemberStatus_loop e tls [] ready unready tr = (ready, unready, tr)"
| "updateMemberStatus_loop e tls (m # ms) ready unready tr =
     (let url = ClientURL e m;
          healthy = CheckHealth_res e tr url tls;
          tr1 = tr @ [CheckHealth url tls]
      in if healthy then updateMemberStatus_loop e tls ms (append_slice ready (Member.Name m)) unready tr1
         else updateMemberStatus_loop e tls ms ready (append_slice unready (Member.Name m)) tr1)"

definition updateMemberStatus :: "env \<Rightarrow> MemberSet option \<Rightarrow> Cluster \<Rightarrow> Cluster" where
  "updateMemberStatus e mbrs c =
     (case updateMemberStatus_loop e (tlsConfig c) (case mbrs of None \<Rightarrow> [] | Some ms \<Rightarrow> ms)
             None None (trace c) of
        (ready, unready, tr) \<Rightarrow>
          c\<lparr>status := (status c)\<lparr>Members := (Members (status c))\<lparr>Ready := ready, Unready := unready\<rparr>\<rparr>,
            trace := tr\<rparr>)"

definition updateLocalBackupStatus :: "env \<Rightarrow> Cluster \<Rightarrow> err option \<times> Cluster" where
  "updateLocalBackupStatus e c =
     (case bm c of
        None \<Rightarrow> (None, c)
      | Some b \<Rightarrow>
          (let c1 = c\<lparr>trace := trace c @ [BMGetStatus b]\<rparr>
           in case bm_getStatus e (trace c) b of
                Inl er \<Rightarrow> (Some er, c1)
              | Inr bs \<Rightarrow>
                  (None, c1\<lparr>status := (status c1)\<lparr>BackupServiceStatus :=
                                 backupServiceStatusToTPRBackupServiceStatu e bs\<rparr>\<rparr>)))"

subsection \<open>Spec updates\<close>

definition isBackupPolicyEqual :: "BackupPolicy option \<Rightarrow> BackupPolicy option \<Rightarrow> bool" where
  "isBackupPolicyEqual b1 b2 = (b1 = b2)"

definition isSpecEqual :: "ClusterSpec \<Rightarrow> ClusterSpec \<Rightarrow> bool" where
  "isSpecEqual s1 s2 =
     (if ClusterSpec.Size s1 \<noteq> ClusterSpec.Size s2 \<or> Paused s1 \<noteq> Paused s2 \<or> Version s1 \<noteq> Version s2
      then False
      else isBackupPolicyEqual (Backup s1) (Backup s2))"

definition nilDereference :: string where
  "nilDereference = ''runtime error: invalid memory address or nil pointer dereference''"

text \<open>A method of the backup manager called on the \<^verbatim>\<open>nil\<close> manager panics.\<close>

definition updateBackupPolicy ::
  "env \<Rightarrow> BackupPolicy option \<Rightarrow> BackupPolicy option \<Rightarrow> Cluster \<Rightarrow> err option outcome \<times> Cluster" where
  "updateBackupPolicy e ob nb c =
     (if ob = None \<and> nb \<noteq> None then
        (let c1 = c\<lparr>trace := trace c @ [NewBackupManager (Cluster.cluster c)]\<rparr>
         in case newBackupManager e (trace c) (Cluster.cluster c) of
              Inl er \<Rightarrow> (Returns (Some er), c1\<lparr>bm := None\<rparr>)
            | Inr b \<Rightarrow> (Returns (bm_setup e (trace c1) b),
                        c1\<lparr>bm := Some b, trace := trace c1 @ [BMSetup b]\<rparr>))
      else if ob \<noteq> None \<and> nb = None then
        (case bm c of
           None \<Rightarrow> (Panics nilDereference, c)
         | Some b \<Rightarrow> (Returns None, c\<lparr>bm := None, trace := trace c @ [BMDeleteBackupSidecar b]\<rparr>))
      else if ob \<noteq> None \<and> nb \<noteq> None then
        (case bm c of
           None \<Rightarrow> (Panics nilDereference, c)
         | Some b \<Rightarrow> (Returns (bm_updateSidecar e (trace c) b (Cluster.cluster c)),
                      c\<lparr>trace := trace c @ [BMUpdateSidecar b (Cluster.cluster c)]\<rparr>))
      else (Panics ''unexpected backup spec comparison'', c))"

subsection \<open>The run loop\<close>

text \<open>The loop of \<^verbatim>\<open>run\<close> keeps the variable \<^verbatim>\<open>rerr\<close> from one iteration to the next, so
  the state of the loop is the pair of the controller and \<^verbatim>\<open>rerr\<close>. An iteration ends by
  going round again (\<open>Continue\<close>) or by leaving \<^verbatim>\<open>run\<close> (\<open>Return\<close>).\<close>

datatype loop_ctl = Continue | Return

type_synonym loop_state = "Cluster \<times> err option"

text \<open>The statements after the \<^verbatim>\<open>select\<close>, reached by falling out of a case or by
  \<^verbatim>\<open>break\<close>, and skipped by \<^verbatim>\<open>continue\<close>.\<close>

definition run_tail :: "loop_state \<Rightarrow> loop_ctl outcome \<times> loop_state" where
  "run_tail s =
     (case s of (c, rerr) \<Rightarrow>
        (Returns Continue,
         (case rerr of
            Some er \<Rightarrow>
              if isFatalError rerr then (c\<lparr>status := SetReason (Error er) (status c)\<rparr>, rerr)
              else (c, rerr)
          | None \<Rightarrow> (c, rerr))))"

text \<open>The case \<^verbatim>\<open>event := <-c.eventCh\<close>. An event of type Modify whose record is \<^verbatim>\<open>nil\<close>
  panics at \<^verbatim>\<open>event.cluster.Spec\<close>.\<close>

definition run_event :: "env \<Rightarrow> clusterEvent \<Rightarrow> loop_state \<Rightarrow> loop_ctl outcome \<times> loop_state" where
  "run_event e event s =
     (case s of (c, rerr) \<Rightarrow>
        if evtyp event = eventModifyCluster then
          (case refreshTLSConfig e c of (terr, c1) \<Rightarrow>
             (case clusterEvent.cluster event of
                None \<Rightarrow> (Panics nilDereference, (c1, rerr))
              | Some ecl \<Rightarrow>
                  if isSpecEqual (Spec ecl) (Spec (Cluster.cluster c1)) then run_tail (c1, rerr)
                  else
                    (let ob = Backup (Spec (Cluster.cluster c1));
                         nb = Backup (Spec ecl);
                         c2 = c1\<lparr>Cluster.cluster := ecl\<rparr>
                     in if \<not> isBackupPolicyEqual ob nb then
                          (case updateBackupPolicy e ob nb c2 of
                             (Returns (Some er), c3) \<Rightarrow>
                               (Returns Return, (c3\<lparr>status := SetReason (Error er) (status c3)\<rparr>, rerr))
                           | (Returns None, c3) \<Rightarrow> run_tail (c3, rerr)
                           | (Panics m, c3) \<Rightarrow> (Panics m, (c3, rerr))
                           | (Exits m, c3) \<Rightarrow> (Exits m, (c3, rerr)))
                        else run_tail (c2, rerr))))
        else if evtyp event = eventDeleteCluster then (Returns Return, (c, rerr))
        else (Panics (''unknown event type'' @ evtyp event), (c, rerr)))"

text \<open>The case \<^verbatim>\<open><-time.After(reconcileInterval)\<close>: one reconcile tick.\<close>

definition run_tick :: "env \<Rightarrow> loop_state \<Rightarrow> loop_ctl outcome \<times> loop_state" where
  "run_tick e s =
     (case s of (c, rerr) \<Rightarrow>
        (case refreshTLSConfig e c of (terr, c1) \<Rightarrow>
           if Paused (Spec (Cluster.cluster c1))
           then (Returns Continue, (c1\<lparr>status := PauseControl e (status c1)\<rparr>, rerr))
           else
             (case pollPods e (c1\<lparr>status := Control e (status c1)\<rparr>) of
                ((running, pending, Some er), c3) \<Rightarrow> (Returns Continue, (c3, rerr))
              | ((running, pending, None), c3) \<Rightarrow>
                  if length pending > 0 then (Returns Continue, (c3, rerr))
                  else if length running = 0 then
                    (case disasterRecovery e None c3 of (rerr1, c4) \<Rightarrow> run_tail (c4, rerr1))
                  else
                    (case (if rerr \<noteq> None \<or> members c3 = None
                           then updateMembers e (podsToMemberSet e running (isSecureClient c3)) c3
                           else (None, c3)) of
                       (Some er, c4) \<Rightarrow> run_tail (c4, Some er)
                     | (None, c4) \<Rightarrow>
                         (case reconcile e running c4 of
                            (Some er, c5) \<Rightarrow> run_tail (c5, Some er)
                          | (None, c5) \<Rightarrow>
                              (case updateLocalBackupStatus e c5 of (berr, c6) \<Rightarrow>
                                 (case updateCRStatus e (updateMemberStatus e (members c6) c6) of
                                    (uerr, c8) \<Rightarrow> run_tail (c8, None))))))))"

text \<open>The \<^verbatim>\<open>select\<close> of the loop: a receive from the event channel, ready when the buffer
  holds an event, and the timer. The result is \<open>None\<close> when the chosen case is not ready.\<close>

datatype run_case = RecvEventCh | TimeAfter

definition run_iter :: "env \<Rightarrow> run_case \<Rightarrow> loop_state \<Rightarrow> (loop_ctl outcome \<times> loop_state) option" where
  "run_iter e k s =
     (case s of (c, rerr) \<Rightarrow>
        (case k of
           RecvEventCh \<Rightarrow>
             (case eventCh c of
                [] \<Rightarrow> None
              | event # rest \<Rightarrow> Some (run_event e event (c\<lparr>eventCh := rest\<rparr>, rerr)))
         | TimeAfter \<Rightarrow> Some (run_tick e s)))"

text \<open>The loop, for a given list of the cases that the \<^verbatim>\<open>select\<close> takes in turn; a case that
  is not ready is passed over. The result is \<open>None\<close> when the loop is still running at the end
  of the list.\<close>

fun run_loop :: "env \<Rightarrow> run_case list \<Rightarrow> loop_state \<Rightarrow> unit outcome option \<times> loop_state" where
  "run_loop e [] s = (None, s)"
| "run_loop e (k # ks) s =
     (case run_iter e k s of
        None \<Rightarrow> run_loop e ks s
      | Some (Returns Continue, s1) \<Rightarrow> run_loop e ks s1
      | Some (Returns Return, s1) \<Rightarrow> (Some (Returns ()), s1)
      | Some (Panics m, s1) \<Rightarrow> (Some (Panics m), s1)
      | Some (Exits m, s1) \<Rightarrow> (Some (Exits m), s1))"

definition run :: "env \<Rightarrow> run_case list \<Rightarrow> Cluster \<Rightarrow> unit outcome option \<times> loop_state" where
  "run e ks c =
     (case updateCRStatus e (c\<lparr>status := SetPhase ClusterPhaseRunning (status c)\<rparr>) of
        (uerr, c1) \<Rightarrow> run_loop e ks (c1, None))"

text \<open>The goroutine that \<^verbatim>\<open>New\<close> starts: an error of \<^verbatim>\<open>setup\<close> becomes a panic, and after a
  successful \<^verbatim>\<open>setup\<close> the loop runs.\<close>

definition New_go :: "env \<Rightarrow> run_case list \<Rightarrow> Cluster \<Rightarrow> unit outcome option \<times> loop_state" where
  "New_go e ks c =
     (case Cluster_setup e c of
        (Returns (Some er), c1) \<Rightarrow> (Some (Panics (''cluster failed to setup: '' @ Error er)), (c1, None))
      | (Returns None, c1) \<Rightarrow> run e ks c1
      | (Panics m, c1) \<Rightarrow> (Some (Panics m), (c1, None))
      | (Exits m, c1) \<Rightarrow> (Some (Exits m), (c1, None)))"

subsection \<open>The backup controller\<close>

text \<open>Modelled from the spec: the names of the storage types S3, ABS and PV (the constants of
  the absent package \<^verbatim>\<open>api\<close>).\<close>

definition BackupStorageTypeS3 :: BackupStorageType where "BackupStorageTypeS3 = ''S3''"
definition BackupStorageTypeABS :: BackupStorageType where "BackupStorageTypeABS = ''ABS''"
definition BackupStorageTypePV :: BackupStorageType where "BackupStorageTypePV = ''PV''"

record BackupSpec =
  StorageType :: BackupStorageType
  S3 :: "string option"
  ABS :: "string option"
  EtcdEndpoints :: "string list"
  ClientTLSSecret :: string

record BackupStatus =
  EtcdVersion :: string
  EtcdRevision :: int64

record Backup =
  namespace :: string

text \<open>A handler gets the storage source, the endpoints, the client TLS secret and the
  namespace, and returns the Go pair of a status pointer and an error. The two handlers are
  parameters of \<open>handleBackup\<close>: \<^verbatim>\<open>handleS3\<close> is outside the source files, and
  \<^verbatim>\<open>handleABS\<close> is called here with these four arguments and the client.\<close>

type_synonym handler =
  "string option \<Rightarrow> string list \<Rightarrow> string \<Rightarrow> string \<Rightarrow> BackupStatus option \<times> err option"

text \<open>\<^verbatim>\<open>logrus.Fatalf\<close> logs the message and exits the process, so the final
  \<^verbatim>\<open>return nil, nil\<close> is not reached.\<close>

definition handleBackup ::
  "handler \<Rightarrow> handler \<Rightarrow> Backup \<Rightarrow> BackupSpec \<Rightarrow> (BackupStatus option \<times> err option) outcome" where
  "handleBackup handleS3 handleABS b sp =
     (if BackupSpec.StorageType sp = BackupStorageTypeS3 then
        (case handleS3 (S3 sp) (EtcdEndpoints sp) (ClientTLSSecret sp) (namespace b) of
           (bs, Some er) \<Rightarrow> Returns (None, Some er)
         | (bs, None) \<Rightarrow> Returns (bs, None))
      else if BackupSpec.StorageType sp = BackupStorageTypeABS then
        (case handleABS (ABS sp) (EtcdEndpoints sp) (ClientTLSSecret sp) (namespace b) of
           (bs, Some er) \<Rightarrow> Returns (None, Some er)
         | (bs, None) \<Rightarrow> Returns (bs, None))
      else Exits (''unknown StorageType: '' @ BackupSpec.StorageType sp))"

subsection \<open>Sample inputs\<close>

text \<open>A fresh cluster record, an environment in which every call succeeds, and the controller
  that \<^verbatim>\<open>New\<close> builds from them; the concrete instances below start from these.\<close>

definition sample_status :: ClusterStatus where
  "sample_status =
     \<lparr>ClusterStatus.Phase = ClusterPhaseNone, Reason = [], Conditions = None, ClusterStatus.Size = 0,
      Members = \<lparr>Ready = None, Unready = None\<rparr>, BackupServiceStatus = None\<rparr>"

definition sample_spec :: ClusterSpec where
  "sample_spec =
     \<lparr>ClusterSpec.Size = 3, Version = ''3.3.0'', Paused = False, TLS = None, Pod = None,
      Backup = None, SelfHosted = None\<rparr>"

definition sample_record :: EtcdCluster where
  "sample_record =
     \<lparr>EtcdCluster.Name = ''etcd'', EtcdCluster.Namespace = ''default'', EtcdCluster.UID = ''uid-1'',
      Spec = sample_spec, EtcdCluster.Status = sample_status\<rparr>"

definition sample_env :: env where
  "sample_env =
     \<lparr>Validate = (\<lambda>s. None),
      errCreatedCluster = Err ''cluster failed to be created'',
      EtcdCRCli_Update = (\<lambda>h cl. Inr cl),
      GenerateTLSConfig = (\<lambda>h s n. Inr (TLSConfig s)),
      Pods_List = (\<lambda>h n l. Inr []),
      Pods_Create = (\<lambda>h n p. None),
      Pods_Delete = (\<lambda>h n p opts. None),
      PVC_Create = (\<lambda>h n m s. None),
      IsKubernetesResourceNotFoundError = (\<lambda>er. er = Err ''not found''),
      CreateClientService_res = (\<lambda>h n ns u. None),
      CreatePeerService_res = (\<lambda>h n ns u. None),
      newBackupManager = (\<lambda>h cl. Inr (BackupManager 0)),
      bm_setup = (\<lambda>h b. None),
      bm_upgradeIfNeeded = (\<lambda>h b. None),
      bm_updateSidecar = (\<lambda>h b cl. None),
      bm_getStatus = (\<lambda>h b. Inr []),
      backupServiceStatusToTPRBackupServiceStatu = (\<lambda>s. Some s),
      CheckHealth_res = (\<lambda>h u t. True),
      ClientURL = (\<lambda>m. ''http://'' @ Member.Name m @ '':2379''),
      CreateMemberName = (\<lambda>n k. n @ ''-0000''),
      uuid_New = (\<lambda>h. ''token''),
      IsSecurePeer = (\<lambda>t. False),
      Copy = (\<lambda>s. s),
      PauseControl = (\<lambda>s. s\<lparr>Conditions := append_slice (Conditions s) ''paused''\<rparr>),
      Control = (\<lambda>s. s),
      AppendScalingUpCondition = (\<lambda>a b s. s\<lparr>Conditions := append_slice (Conditions s) ''scaling up''\<rparr>),
      podsToMemberSet = (\<lambda>ps b. []),
      newSelfHostedSeedMember = (\<lambda>c. (None, c)),
      migrateBootMember = (\<lambda>c. (None, c)),
      disasterRecovery = (\<lambda>l c. (None, c)),
      updateMembers = (\<lambda>ms c. (None, c)),
      reconcile = (\<lambda>ps c. (None, c))\<rparr>"

definition sample_controller :: Cluster where
  "sample_controller = New sample_env sample_record"


text \<open>The sample controller after the in-memory status got a reason, and the same controller
  after \<^verbatim>\<open>updateCRStatus\<close> has sent that status.\<close>

definition changed_controller :: Cluster where
  "changed_controller = sample_controller\<lparr>status := SetReason ''r'' sample_status\<rparr>"

text \<open>A controller whose record holds empty member lists (as a decoded \<^verbatim>\<open>[]\<close>) while the
  in-memory status holds \<^verbatim>\<open>nil\<close> ones.\<close>

definition empty_lists_record :: EtcdCluster where
  "empty_lists_record =
     sample_record\<lparr>EtcdCluster.Status := sample_status\<lparr>Members := \<lparr>Ready = Some [], Unready = Some []\<rparr>\<rparr>\<rparr>"

definition empty_lists_controller :: Cluster where
  "empty_lists_controller = sample_controller\<lparr>Cluster.cluster := empty_lists_record\<rparr>"



definition written_controller :: Cluster where
  "written_controller =
     changed_controller
       \<lparr>Cluster.cluster := sample_record\<lparr>EtcdCluster.Status := SetReason ''r'' sample_status\<rparr>,
        trace := [CRUpdate (sample_record\<lparr>EtcdCluster.Status := SetReason ''r'' sample_status\<rparr>)]\<rparr>"

text \<open>The spec's notion of ownership: a pod is ours iff its first owner reference's UID is the
  UID of the cluster; a pod without owner reference is not ours.\<close>

definition isOurs :: "UID \<Rightarrow> Pod \<Rightarrow> bool" where
  "isOurs uid pod =
     (case OwnerReferences pod of [] \<Rightarrow> False | r # rs \<Rightarrow> OwnerReference.UID r = uid)"

definition sample_pod :: "string \<Rightarrow> UID list \<Rightarrow> PodPhase \<Rightarrow> Pod" where
  "sample_pod n owners ph =
     \<lparr>Pod.Name = n, OwnerReferences = map (\<lambda>u. \<lparr>OwnerReference.UID = u\<rparr>) owners,
      Pod.Status = \<lparr>PodStatus.Phase = ph\<rparr>\<rparr>"

definition sample_pods :: "Pod list" where
  "sample_pods =
     [sample_pod ''etcd-0000'' [''uid-1''] PodRunning,
      sample_pod ''etcd-0001'' [''uid-1'', ''uid-2''] PodPending,
      sample_pod ''etcd-0002'' [''uid-1''] PodFailed,
      sample_pod ''etcd-0003'' [''uid-2'', ''uid-1''] PodRunning,
      sample_pod ''etcd-0004'' [] PodRunning,
      sample_pod ''etcd-0005'' [''uid-1''] PodSucceeded,
      sample_pod ''etcd-0006'' [''uid-1''] PodUnknown,
      sample_pod ''etcd-0007'' [''uid-1''] PodRunning]"

definition listing_env :: env where
  "listing_env = sample_env\<lparr>Pods_List := (\<lambda>h ns nm. Inr sample_pods)\<rparr>"

definition not_found_env :: env where
  "not_found_env = sample_env\<lparr>Pods_Delete := (\<lambda>h ns nm opts. Some (Err ''not found''))\<rparr>"

definition forbidden_env :: env where
  "forbidden_env = sample_env\<lparr>Pods_Delete := (\<lambda>h ns nm opts. Some (Err ''forbidden''))\<rparr>"

definition sample_handler :: handler where
  "sample_handler src eps sec ns = (Some \<lparr>EtcdVersion = ''3.3.0'', EtcdRevision = 7\<rparr>, None)"

definition sample_backup_spec :: "BackupStorageType \<Rightarrow> BackupSpec" where
  "sample_backup_spec t =
     \<lparr>BackupSpec.StorageType = t, S3 = None, ABS = None, EtcdEndpoints = [''http://etcd:2379''],
      ClientTLSSecret = []\<rparr>"

text \<open>Inputs for the event queue and the run loop.\<close>

definition sample_event :: clusterEvent where
  "sample_event = \<lparr>evtyp = eventModifyCluster, clusterEvent.cluster = Some sample_record\<rparr>"

definition full_controller :: Cluster where
  "full_controller = sample_controller\<lparr>eventCh := replicate 100 sample_event\<rparr>"

text \<open>The loop keeps the reason of a fatal \<^verbatim>\<open>rerr\<close> in the status: the statements after the
  \<^verbatim>\<open>select\<close> store it in the iteration that sets \<^verbatim>\<open>rerr\<close>, and they run again with the same
  \<^verbatim>\<open>rerr\<close> after every later event.\<close>

definition rerr_recorded :: "loop_state \<Rightarrow> bool" where
  "rerr_recorded s =
     (case s of (c, rerr) \<Rightarrow>
        (case rerr of Some (FatalErr m) \<Rightarrow> Reason (status c) = m | _ \<Rightarrow> True))"

definition paused_controller :: Cluster where
  "paused_controller =
     sample_controller\<lparr>Cluster.cluster := sample_record\<lparr>Spec := sample_spec\<lparr>Paused := True\<rparr>\<rparr>\<rparr>"

definition other_record :: EtcdCluster where
  "other_record =
     sample_record\<lparr>Spec := sample_spec\<lparr>SelfHosted := Some \<lparr>BootMemberClientEndpoint = ''http://boot:2379''\<rparr>\<rparr>\<rparr>"

definition same_spec_event :: clusterEvent where
  "same_spec_event = \<lparr>evtyp = eventModifyCluster, clusterEvent.cluster = Some other_record\<rparr>"

definition degraded_controller :: Cluster where
  "degraded_controller =
     sample_controller\<lparr>status := SetReason ''no backup'' sample_status,
                        eventCh := [same_spec_event, same_spec_event]\<rparr>"

text \<open>Inputs for the backup policy and for the phases of the persisted status.\<close>

definition sample_policy :: BackupPolicy where
  "sample_policy =
     \<lparr>BackupIntervalInSecond = 1800, MaxBackups = 5, StorageType = ''S3'', StorageSource = ''bucket''\<rparr>"

definition backup_record :: EtcdCluster where
  "backup_record = sample_record\<lparr>Spec := sample_spec\<lparr>Backup := Some sample_policy\<rparr>\<rparr>"

definition resized_record :: EtcdCluster where
  "resized_record = sample_record\<lparr>Spec := sample_spec\<lparr>ClusterSpec.Size := 5\<rparr>\<rparr>"

definition backup_controller :: Cluster where
  "backup_controller =
     sample_controller\<lparr>Cluster.cluster := backup_record, bm := Some (BackupManager 0)\<rparr>"

definition failing_setup_env :: env where
  "failing_setup_env = sample_env\<lparr>bm_setup := (\<lambda>h b. Some (Err ''no sidecar''))\<rparr>"

definition modify :: "EtcdCluster \<Rightarrow> clusterEvent" where
  "modify cl = \<lparr>evtyp = eventModifyCluster, clusterEvent.cluster = Some cl\<rparr>"

text \<open>The external calls that \<^verbatim>\<open>create\<close> and the functions it calls make.\<close>

definition creation_effect :: "effect \<Rightarrow> bool" where
  "creation_effect x =
     (case x of
        CRUpdate cl \<Rightarrow> True
      | CollectCluster n u \<Rightarrow> True
      | BMSetup b \<Rightarrow> True
      | UUIDNew \<Rightarrow> True
      | PVCCreate ns m s \<Rightarrow> True
      | PodsCreate ns p \<Rightarrow> True
      | CreateClientService n ns u \<Rightarrow> True
      | CreatePeerService n ns u \<Rightarrow> True
      | _ \<Rightarrow> False)"

definition in_phase :: "ClusterPhase \<Rightarrow> EtcdCluster \<Rightarrow> EtcdCluster" where
  "in_phase p cl = cl\<lparr>EtcdCluster.Status := SetPhase p (EtcdCluster.Status cl)\<rparr>"

definition creating_controller :: Cluster where
  "creating_controller = New sample_env (in_phase ClusterPhaseCreating sample_record)"

definition running_controller :: Cluster where
  "running_controller = New sample_env (in_phase ClusterPhaseRunning backup_record)"

definition failed_controller :: Cluster where
  "failed_controller = New sample_env (in_phase ClusterPhaseFailed sample_record)"

definition sample_seed :: Member where
  "sample_seed =
     \<lparr>Member.Name = ''etcd-0000'', Member.Namespace = ''default'', SecurePeer = False,
      SecureClient = False\<rparr>"

definition sample_seed_pod :: NewPod where
  "sample_seed_pod =
     \<lparr>pod_member = sample_seed, pod_peers = [sample_seed], pod_clusterName = ''etcd'',
      pod_state = ''new'', pod_token = ''token'', pod_spec = sample_spec, pod_owner = ''uid-1'',
      pod_recovery = False, pod_volume = EmptyDirVolume\<rparr>"

section \<open>Properties\<close>

lemmas sample_defs = sample_controller_def New_def sample_env_def sample_record_def
  sample_status_def sample_spec_def

lemma Status_update_id [simp]:
  "(cl\<lparr>EtcdCluster.Status := s\<rparr> = cl) = (EtcdCluster.Status cl = s)"
  by (cases cl) auto

subsection \<open>The status reporter\<close>

text \<open>
  C8. Whenever the in-memory status deep-equals the status stored on the cluster record,
  \<^verbatim>\<open>updateCRStatus\<close> returns \<^verbatim>\<open>nil\<close> and leaves the whole controller state, the trace of
  external calls included, as it was: no write reaches the record client. Otherwise (a
  \<^verbatim>\<open>nil\<close> slice against an empty one is such a difference) it sends exactly one update, of
  the record carrying the in-memory status, and when the record client answers with a record,
  it returns \<^verbatim>\<open>nil\<close> and that record is the controller's new record.
\<close>

theorem updateCRStatus_skips_or_writes:
  "(EtcdCluster.Status (Cluster.cluster c) = status c \<longrightarrow> updateCRStatus e c = (None, c)) \<and>
   (EtcdCluster.Status (Cluster.cluster c) \<noteq> status c \<longrightarrow>
      trace (snd (updateCRStatus e c))
        = trace c @ [CRUpdate ((Cluster.cluster c)\<lparr>EtcdCluster.Status := status c\<rparr>)] \<and>
      (\<forall>newCluster.
         EtcdCRCli_Update e (trace c) ((Cluster.cluster c)\<lparr>EtcdCluster.Status := status c\<rparr>)
           = Inr newCluster \<longrightarrow>
         updateCRStatus e c =
           (None, c\<lparr>Cluster.cluster := newCluster,
                    trace := trace c @ [CRUpdate ((Cluster.cluster c)\<lparr>EtcdCluster.Status := status c\<rparr>)]\<rparr>)))"
  by (auto simp add: updateCRStatus_def Let_def split: sum.splits)

theorem updateCRStatus_skips_or_writes_witness:
  "EtcdCluster.Status (Cluster.cluster sample_controller) = status sample_controller \<and>
   updateCRStatus sample_env sample_controller = (None, sample_controller) \<and>
   EtcdCluster.Status (Cluster.cluster changed_controller) \<noteq> status changed_controller \<and>
   EtcdCRCli_Update sample_env (trace changed_controller)
       ((Cluster.cluster changed_controller)\<lparr>EtcdCluster.Status := status changed_controller\<rparr>)
     = Inr (sample_record\<lparr>EtcdCluster.Status := SetReason ''r'' sample_status\<rparr>) \<and>
   updateCRStatus sample_env changed_controller = (None, written_controller) \<and>
   EtcdCluster.Status (Cluster.cluster empty_lists_controller) \<noteq> status empty_lists_controller \<and>
   updateCRStatus sample_env empty_lists_controller =
     (None, sample_controller\<lparr>trace := [CRUpdate sample_record]\<rparr>)"
  using updateCRStatus_skips_or_writes [of sample_controller sample_env]
        updateCRStatus_skips_or_writes [of changed_controller sample_env]
        updateCRStatus_skips_or_writes [of empty_lists_controller sample_env]
  by (simp add: sample_defs SetReason_def changed_controller_def written_controller_def
      empty_lists_controller_def empty_lists_record_def)




subsection \<open>Pods\<close>

lemma pollPods_loop_filter:
  "pollPods_loop uid items running pending =
     (running @ filter (\<lambda>p. isOurs uid p \<and> PodStatus.Phase (Pod.Status p) = PodRunning) items,
      pending @ filter (\<lambda>p. isOurs uid p \<and> PodStatus.Phase (Pod.Status p) = PodPending) items)"
proof (induction items arbitrary: running pending)
  case Nil
  show ?case by simp
next
  case (Cons pod items)
  show ?case
  proof (cases "OwnerReferences pod")
    case Nil
    with Cons show ?thesis by (simp add: isOurs_def)
  next
    case (Cons r rs)
    with Cons.IH show ?thesis
      by (cases "PodStatus.Phase (Pod.Status pod)") (simp_all add: isOurs_def)
  qed
qed

text \<open>
  C6. For every pod list that the platform returns, \<^verbatim>\<open>pollPods\<close> returns, in the order of the
  list, the pods of phase Running whose first owner reference has the UID of the cluster, and
  separately those of phase Pending; a pod with another first owner or with no owner reference,
  and a pod of any other phase (Succeeded, Failed, Unknown), is in neither list. The only
  external call is the listing.
\<close>

theorem pollPods_classifies_owned_pods:
  "Pods_List e (trace c) (EtcdCluster.Namespace (Cluster.cluster c)) (EtcdCluster.Name (Cluster.cluster c))
     = Inr items \<Longrightarrow>
   pollPods e c =
     ((filter (\<lambda>p. isOurs (EtcdCluster.UID (Cluster.cluster c)) p \<and> PodStatus.Phase (Pod.Status p) = PodRunning) items,
       filter (\<lambda>p. isOurs (EtcdCluster.UID (Cluster.cluster c)) p \<and> PodStatus.Phase (Pod.Status p) = PodPending) items,
       None),
      c\<lparr>trace := trace c @ [PodsList (EtcdCluster.Namespace (Cluster.cluster c)) (EtcdCluster.Name (Cluster.cluster c))]\<rparr>)"
  by (simp add: pollPods_def Let_def pollPods_loop_filter)

theorem pollPods_classifies_owned_pods_witness:
  "pollPods listing_env sample_controller =
     (([sample_pod ''etcd-0000'' [''uid-1''] PodRunning, sample_pod ''etcd-0007'' [''uid-1''] PodRunning],
       [sample_pod ''etcd-0001'' [''uid-1'', ''uid-2''] PodPending], None),
      sample_controller\<lparr>trace := [PodsList ''default'' ''etcd'']\<rparr>)"
proof -
  have "Pods_List listing_env (trace sample_controller)
          (EtcdCluster.Namespace (Cluster.cluster sample_controller))
          (EtcdCluster.Name (Cluster.cluster sample_controller)) = Inr sample_pods"
    by (simp add: listing_env_def sample_env_def)
  from pollPods_classifies_owned_pods [OF this] show ?thesis
    by (simp add: sample_controller_def New_def sample_record_def sample_pods_def sample_pod_def isOurs_def)
qed

text \<open>
  C7. For every pod name, \<^verbatim>\<open>removePod\<close> makes exactly one external call, the deletion of the
  pod with a grace period of 5 seconds; it returns \<^verbatim>\<open>nil\<close> when the deletion succeeds and when
  the platform reports the pod as not found, and returns the platform's error in every other
  case.
\<close>

theorem removePod_not_found_is_success:
  "removePod e name c = (r, c1) \<Longrightarrow>
     c1 = c\<lparr>trace := trace c @ [PodsDelete (EtcdCluster.Namespace (Cluster.cluster c)) name
                                   \<lparr>GracePeriodSeconds = Some 5\<rparr>]\<rparr> \<and>
     (Pods_Delete e (trace c) (EtcdCluster.Namespace (Cluster.cluster c)) name \<lparr>GracePeriodSeconds = Some 5\<rparr> = None
        \<longrightarrow> r = None) \<and>
     (\<forall>er. Pods_Delete e (trace c) (EtcdCluster.Namespace (Cluster.cluster c)) name \<lparr>GracePeriodSeconds = Some 5\<rparr> = Some er
           \<and> IsKubernetesResourceNotFoundError e er \<longrightarrow> r = None) \<and>
     (\<forall>er. Pods_Delete e (trace c) (EtcdCluster.Namespace (Cluster.cluster c)) name \<lparr>GracePeriodSeconds = Some 5\<rparr> = Some er
           \<and> \<not> IsKubernetesResourceNotFoundError e er \<longrightarrow> r = Some er)"
  by (auto simp add: removePod_def Let_def NewDeleteOptions_def podTerminationGracePeriod_def
      split: option.splits if_splits)

theorem removePod_not_found_is_success_witness:
  "removePod not_found_env ''etcd-0000'' sample_controller =
     (None, sample_controller\<lparr>trace := [PodsDelete ''default'' ''etcd-0000'' \<lparr>GracePeriodSeconds = Some 5\<rparr>]\<rparr>) \<and>
   removePod sample_env ''etcd-0000'' sample_controller =
     (None, sample_controller\<lparr>trace := [PodsDelete ''default'' ''etcd-0000'' \<lparr>GracePeriodSeconds = Some 5\<rparr>]\<rparr>) \<and>
   removePod forbidden_env ''etcd-0000'' sample_controller =
     (Some (Err ''forbidden''),
      sample_controller\<lparr>trace := [PodsDelete ''default'' ''etcd-0000'' \<lparr>GracePeriodSeconds = Some 5\<rparr>]\<rparr>)"
proof -
  obtain r1 c1 where r1: "removePod not_found_env ''etcd-0000'' sample_controller = (r1, c1)"
    by (cases "removePod not_found_env ''etcd-0000'' sample_controller")
  obtain r2 c2 where r2: "removePod sample_env ''etcd-0000'' sample_controller = (r2, c2)"
    by (cases "removePod sample_env ''etcd-0000'' sample_controller")
  obtain r3 c3 where r3: "removePod forbidden_env ''etcd-0000'' sample_controller = (r3, c3)"
    by (cases "removePod forbidden_env ''etcd-0000'' sample_controller")
  from removePod_not_found_is_success [OF r1] have "r1 = None"
    "c1 = sample_controller\<lparr>trace := [PodsDelete ''default'' ''etcd-0000'' \<lparr>GracePeriodSeconds = Some 5\<rparr>]\<rparr>"
    by (simp_all add: not_found_env_def sample_defs)
  moreover from removePod_not_found_is_success [OF r2] have "r2 = None"
    "c2 = sample_controller\<lparr>trace := [PodsDelete ''default'' ''etcd-0000'' \<lparr>GracePeriodSeconds = Some 5\<rparr>]\<rparr>"
    by (simp_all add: sample_defs)
  moreover from removePod_not_found_is_success [OF r3] have "r3 = Some (Err ''forbidden'')"
    "c3 = sample_controller\<lparr>trace := [PodsDelete ''default'' ''etcd-0000'' \<lparr>GracePeriodSeconds = Some 5\<rparr>]\<rparr>"
    by (simp_all add: forbidden_env_def sample_defs)
  ultimately show ?thesis using r1 r2 r3 by simp
qed

subsection \<open>The backup controller\<close>

text \<open>
  C10. \<^verbatim>\<open>handleBackup\<close> returns (a status or an error) only for the storage types S3 and ABS,
  where it returns what the handler of the type returns; for every other storage type, PV
  among them, it logs fatally and the process exits: no error value is returned.
\<close>

theorem handleBackup_unknown_storage_exits:
  "(BackupSpec.StorageType sp \<noteq> BackupStorageTypeS3 \<and> BackupSpec.StorageType sp \<noteq> BackupStorageTypeABS \<longrightarrow>
      handleBackup handleS3 handleABS b sp = Exits (''unknown StorageType: '' @ BackupSpec.StorageType sp)) \<and>
   (\<forall>res. handleBackup handleS3 handleABS b sp = Returns res \<longrightarrow>
      BackupSpec.StorageType sp = BackupStorageTypeS3 \<or> BackupSpec.StorageType sp = BackupStorageTypeABS) \<and>
   (BackupSpec.StorageType sp = BackupStorageTypeS3 \<longrightarrow>
      handleBackup handleS3 handleABS b sp =
        Returns (case handleS3 (S3 sp) (EtcdEndpoints sp) (ClientTLSSecret sp) (namespace b) of
                   (bs, Some er) \<Rightarrow> (None, Some er) | (bs, None) \<Rightarrow> (bs, None))) \<and>
   (BackupSpec.StorageType sp = BackupStorageTypeABS \<longrightarrow>
      handleBackup handleS3 handleABS b sp =
        Returns (case handleABS (ABS sp) (EtcdEndpoints sp) (ClientTLSSecret sp) (namespace b) of
                   (bs, Some er) \<Rightarrow> (None, Some er) | (bs, None) \<Rightarrow> (bs, None))) \<and>
   handleBackup handleS3 handleABS b (sp\<lparr>BackupSpec.StorageType := BackupStorageTypePV\<rparr>)
     = Exits ''unknown StorageType: PV''"
  by (auto simp add: handleBackup_def BackupStorageTypeS3_def BackupStorageTypeABS_def
      BackupStorageTypePV_def split: prod.splits option.splits)

theorem handleBackup_unknown_storage_exits_witness:
  "handleBackup sample_handler sample_handler \<lparr>namespace = ''default''\<rparr> (sample_backup_spec ''PV'')
     = Exits ''unknown StorageType: PV'' \<and>
   handleBackup sample_handler sample_handler \<lparr>namespace = ''default''\<rparr> (sample_backup_spec ''GCS'')
     = Exits ''unknown StorageType: GCS'' \<and>
   handleBackup sample_handler sample_handler \<lparr>namespace = ''default''\<rparr> (sample_backup_spec ''S3'')
     = Returns (Some \<lparr>EtcdVersion = ''3.3.0'', EtcdRevision = 7\<rparr>, None) \<and>
   handleBackup sample_handler sample_handler \<lparr>namespace = ''default''\<rparr> (sample_backup_spec ''ABS'')
     = Returns (Some \<lparr>EtcdVersion = ''3.3.0'', EtcdRevision = 7\<rparr>, None)"
  using handleBackup_unknown_storage_exits [of "sample_backup_spec ''PV''" sample_handler sample_handler "\<lparr>namespace = ''default''\<rparr>"]
        handleBackup_unknown_storage_exits [of "sample_backup_spec ''GCS''" sample_handler sample_handler "\<lparr>namespace = ''default''\<rparr>"]
        handleBackup_unknown_storage_exits [of "sample_backup_spec ''S3''" sample_handler sample_handler "\<lparr>namespace = ''default''\<rparr>"]
        handleBackup_unknown_storage_exits [of "sample_backup_spec ''ABS''" sample_handler sample_handler "\<lparr>namespace = ''default''\<rparr>"]
  by (simp add: sample_backup_spec_def sample_handler_def BackupStorageTypeS3_def BackupStorageTypeABS_def
      BackupStorageTypePV_def)

subsection \<open>Event ingress\<close>

text \<open>
  With 100 events in the buffer and the stop channel open, neither case of the \<^verbatim>\<open>select\<close>
  of \<^verbatim>\<open>send\<close> is ready: \<^verbatim>\<open>Update\<close> and \<^verbatim>\<open>Delete\<close> block their caller.
\<close>

theorem send_blocks_on_full_queue:
  "Update sample_record full_controller = Blocks \<and> Delete full_controller = Blocks \<and>
   length (eventCh full_controller) = 100 \<and> eventChCap full_controller = 100"
  by (simp add: Update_def Delete_def send_def send_ready_def full_controller_def sample_controller_def New_def)

text \<open>
  C2, as the code has it. \<^verbatim>\<open>Update\<close> and \<^verbatim>\<open>Delete\<close> block their caller exactly when the
  buffer of the event channel is full and the stop channel is not ready; the channel that
  \<^verbatim>\<open>New\<close> makes has capacity 100, is empty, and the stop channel is open. With room in the
  buffer and the stop channel open, the call returns with the event appended to the buffer.
\<close>

theorem send_blocks_iff_full_and_open:
  "(Update cl c = Blocks) = (eventChCap c \<le> length (eventCh c) \<and> \<not> stopCh c) \<and>
   (Delete c = Blocks) = (eventChCap c \<le> length (eventCh c) \<and> \<not> stopCh c) \<and>
   eventChCap (New e cl) = 100 \<and> eventCh (New e cl) = [] \<and> \<not> stopCh (New e cl) \<and>
   (length (eventCh c) < eventChCap c \<and> \<not> stopCh c \<longrightarrow>
      Update cl c = Returned [c\<lparr>eventCh := eventCh c @ [\<lparr>evtyp = eventModifyCluster, clusterEvent.cluster = Some cl\<rparr>]\<rparr>] \<and>
      Delete c = Returned [c\<lparr>eventCh := eventCh c @ [\<lparr>evtyp = eventDeleteCluster, clusterEvent.cluster = None\<rparr>]\<rparr>])"
  by (auto simp add: Update_def Delete_def send_def send_ready_def New_def)

theorem send_blocks_iff_full_and_open_witness:
  "Update sample_record sample_controller =
     Returned [sample_controller\<lparr>eventCh := [\<lparr>evtyp = eventModifyCluster, clusterEvent.cluster = Some sample_record\<rparr>]\<rparr>] \<and>
   Delete sample_controller =
     Returned [sample_controller\<lparr>eventCh := [\<lparr>evtyp = eventDeleteCluster, clusterEvent.cluster = None\<rparr>]\<rparr>] \<and>
   Update sample_record (full_controller\<lparr>stopCh := True\<rparr>) \<noteq> Blocks \<and>
   Delete (full_controller\<lparr>eventCh := []\<rparr>) \<noteq> Blocks"
  using send_blocks_iff_full_and_open [of sample_record sample_controller sample_env]
        send_blocks_iff_full_and_open [of sample_record "full_controller\<lparr>stopCh := True\<rparr>" sample_env]
        send_blocks_iff_full_and_open [of sample_record "full_controller\<lparr>eventCh := []\<rparr>" sample_env]
  by (simp add: full_controller_def sample_controller_def New_def)

subsection \<open>The run loop\<close>

lemma refreshTLSConfig_frame:
  "refreshTLSConfig e c = (r, c1) \<Longrightarrow>
     Cluster.cluster c1 = Cluster.cluster c \<and> status c1 = status c \<and> members c1 = members c \<and>
     bm c1 = bm c \<and> memberCounter c1 = memberCounter c \<and> eventCh c1 = eventCh c \<and>
     eventChCap c1 = eventChCap c \<and> stopCh c1 = stopCh c \<and>
     trace c1 = trace c @
       (if isSecureClient c
        then [SecretGet (case TLS (Spec (Cluster.cluster c)) of Some t \<Rightarrow> OperatorSecret t | None \<Rightarrow> [])
                        (EtcdCluster.Namespace (Cluster.cluster c))]
        else [])"
  by (auto simp add: refreshTLSConfig_def Let_def split: if_splits sum.splits)

text \<open>
  C5. On a tick with \<^verbatim>\<open>Spec.Paused\<close> set, the controller stores \<^verbatim>\<open>PauseControl\<close> of its status
  and goes round the loop: the record, the members, the member counter, the backup manager and
  \<^verbatim>\<open>rerr\<close> are as before, and the only external call of the tick is the read of the operator's
  TLS secret (when client security is on), which precedes the test. No pod is listed, created
  or deleted and no service is touched.
\<close>

theorem paused_tick_skips_reconciliation:
  "Paused (Spec (Cluster.cluster c)) \<Longrightarrow>
   \<exists>c1. run_iter e TimeAfter (c, rerr) = Some (Returns Continue, (c1, rerr)) \<and>
        status c1 = PauseControl e (status c) \<and>
        Cluster.cluster c1 = Cluster.cluster c \<and> members c1 = members c \<and> bm c1 = bm c \<and>
        memberCounter c1 = memberCounter c \<and> eventCh c1 = eventCh c \<and>
        trace c1 = trace c @
          (if isSecureClient c
           then [SecretGet (case TLS (Spec (Cluster.cluster c)) of Some t \<Rightarrow> OperatorSecret t | None \<Rightarrow> [])
                           (EtcdCluster.Namespace (Cluster.cluster c))]
           else [])"
proof -
  obtain r c0 where tls: "refreshTLSConfig e c = (r, c0)"
    by (cases "refreshTLSConfig e c")
  note fr = refreshTLSConfig_frame [OF tls]
  assume "Paused (Spec (Cluster.cluster c))"
  with fr tls have "run_iter e TimeAfter (c, rerr) =
      Some (Returns Continue, (c0\<lparr>status := PauseControl e (status c0)\<rparr>, rerr))"
    by (simp add: run_iter_def run_tick_def)
  with fr show ?thesis by simp
qed

theorem paused_tick_skips_reconciliation_witness:
  "Paused (Spec (Cluster.cluster paused_controller)) \<and>
   (\<exists>c1. run_iter sample_env TimeAfter (paused_controller, None) = Some (Returns Continue, (c1, None)) \<and>
         status c1 = sample_status\<lparr>Conditions := Some [''paused'']\<rparr> \<and>
         Cluster.cluster c1 = Cluster.cluster paused_controller \<and> members c1 = None \<and> bm c1 = None \<and>
         trace c1 = [])"
proof -
  have p: "Paused (Spec (Cluster.cluster paused_controller))"
    by (simp add: paused_controller_def)
  from paused_tick_skips_reconciliation [OF p, of sample_env None] obtain c1 where
    step: "run_iter sample_env TimeAfter (paused_controller, None) = Some (Returns Continue, (c1, None))"
    and st: "status c1 = PauseControl sample_env (status paused_controller)"
    and fr: "Cluster.cluster c1 = Cluster.cluster paused_controller" "members c1 = members paused_controller"
      "bm c1 = bm paused_controller"
    and tr: "trace c1 = trace paused_controller @
          (if isSecureClient paused_controller
           then [SecretGet (case TLS (Spec (Cluster.cluster paused_controller)) of
                              Some t \<Rightarrow> OperatorSecret t | None \<Rightarrow> [])
                           (EtcdCluster.Namespace (Cluster.cluster paused_controller))]
           else [])"
    by blast
  from st have st1: "status c1 = sample_status\<lparr>Conditions := Some [''paused'']\<rparr>"
    by (simp add: paused_controller_def sample_defs)
  from fr have fr1: "members c1 = None" "bm c1 = None"
    by (simp_all add: paused_controller_def sample_defs)
  from tr have tr1: "trace c1 = []"
    by (simp add: isSecureClient_def IsSecureClient_def paused_controller_def sample_defs)
  from p step st1 fr(1) fr1 tr1 show ?thesis by blast
qed

lemma run_tail_recorded:
  "rerr_recorded (c, rerr) \<Longrightarrow> run_tail (c, rerr) = (Returns Continue, (c, rerr))"
  by (cases c) (auto simp add: rerr_recorded_def run_tail_def SetReason_def
      split: option.splits err.splits)

lemma run_tail_establishes_recorded:
  "run_tail s = (r, s1) \<Longrightarrow> rerr_recorded s1"
  by (cases s) (auto simp add: rerr_recorded_def run_tail_def SetReason_def
      split: option.splits err.splits if_splits)

lemma isSpecEqual_iff:
  "isSpecEqual s1 s2 =
     (ClusterSpec.Size s1 = ClusterSpec.Size s2 \<and> Paused s1 = Paused s2 \<and> Version s1 = Version s2 \<and>
      Backup s1 = Backup s2)"
  by (auto simp add: isSpecEqual_def isBackupPolicyEqual_def)

lemma run_event_equal_spec:
  assumes ev: "evtyp ev = eventModifyCluster" "clusterEvent.cluster ev = Some ncl"
    and same: "isSpecEqual (Spec ncl) (Spec (Cluster.cluster c))"
    and inv: "rerr_recorded (c, rerr)"
  shows "run_event e ev (c, rerr) = (Returns Continue, (snd (refreshTLSConfig e c), rerr))"
proof -
  obtain r c0 where tls: "refreshTLSConfig e c = (r, c0)"
    by (cases "refreshTLSConfig e c")
  note fr = refreshTLSConfig_frame [OF tls]
  from inv fr have "rerr_recorded (c0, rerr)"
    by (simp add: rerr_recorded_def)
  then have "run_tail (c0, rerr) = (Returns Continue, (c0, rerr))"
    by (rule run_tail_recorded)
  with ev same tls fr show ?thesis
    by (simp add: run_event_def)
qed

text \<open>
  C3. Let the next two events of the queue be the same Modify event, whose spec has the size,
  version, paused flag and backup policy of the current spec, in a loop state where a fatal
  \<^verbatim>\<open>rerr\<close> is recorded in the status (as the loop leaves it). Then the iteration that takes the
  event goes round the loop with the record, the backup manager, the status, the members and the
  member counter unchanged; and taking the event a second time, under any environment, again
  changes none of them: twice gives what once gives.
\<close>

theorem modify_with_equal_spec_is_ignored:
  assumes ev: "evtyp ev = eventModifyCluster" "clusterEvent.cluster ev = Some ncl"
    and same: "ClusterSpec.Size (Spec ncl) = ClusterSpec.Size (Spec (Cluster.cluster c))"
      "Version (Spec ncl) = Version (Spec (Cluster.cluster c))"
      "Paused (Spec ncl) = Paused (Spec (Cluster.cluster c))"
      "Backup (Spec ncl) = Backup (Spec (Cluster.cluster c))"
    and queue: "eventCh c = ev # ev # rest"
    and inv: "rerr_recorded (c, rerr)"
  shows "\<exists>c1 c2.
      run_iter e RecvEventCh (c, rerr) = Some (Returns Continue, (c1, rerr)) \<and>
      Cluster.cluster c1 = Cluster.cluster c \<and> bm c1 = bm c \<and> status c1 = status c \<and>
      members c1 = members c \<and> memberCounter c1 = memberCounter c \<and> eventCh c1 = ev # rest \<and>
      run_iter e2 RecvEventCh (c1, rerr) = Some (Returns Continue, (c2, rerr)) \<and>
      Cluster.cluster c2 = Cluster.cluster c1 \<and> bm c2 = bm c1 \<and> status c2 = status c1 \<and>
      members c2 = members c1 \<and> memberCounter c2 = memberCounter c1 \<and> eventCh c2 = rest"
proof -
  let ?d = "c\<lparr>eventCh := ev # rest\<rparr>"
  obtain r1 c1 where tls1: "refreshTLSConfig e ?d = (r1, c1)"
    by (cases "refreshTLSConfig e ?d")
  note fr1 = refreshTLSConfig_frame [OF tls1]
  from same have eq1: "isSpecEqual (Spec ncl) (Spec (Cluster.cluster ?d))"
    by (simp add: isSpecEqual_iff)
  from inv have inv1: "rerr_recorded (?d, rerr)"
    by (simp add: rerr_recorded_def)
  from run_event_equal_spec [OF ev eq1 inv1, of e] tls1 queue
  have step1: "run_iter e RecvEventCh (c, rerr) = Some (Returns Continue, (c1, rerr))"
    by (simp add: run_iter_def)
  let ?d2 = "c1\<lparr>eventCh := rest\<rparr>"
  obtain r2 c2 where tls2: "refreshTLSConfig e2 ?d2 = (r2, c2)"
    by (cases "refreshTLSConfig e2 ?d2")
  note fr2 = refreshTLSConfig_frame [OF tls2]
  from same fr1 have eq2: "isSpecEqual (Spec ncl) (Spec (Cluster.cluster ?d2))"
    by (simp add: isSpecEqual_iff)
  from inv fr1 have inv2: "rerr_recorded (?d2, rerr)"
    by (simp add: rerr_recorded_def)
  from run_event_equal_spec [OF ev eq2 inv2, of e2] tls2 fr1
  have step2: "run_iter e2 RecvEventCh (c1, rerr) = Some (Returns Continue, (c2, rerr))"
    by (simp add: run_iter_def)
  from step1 step2 fr1 fr2 show ?thesis by simp
qed


theorem modify_with_equal_spec_is_ignored_witness:
  "rerr_recorded (degraded_controller, Some (FatalErr ''no backup'')) \<and>
   (\<exists>c1 c2.
      run_iter sample_env RecvEventCh (degraded_controller, Some (FatalErr ''no backup''))
        = Some (Returns Continue, (c1, Some (FatalErr ''no backup''))) \<and>
      Cluster.cluster c1 = sample_record \<and> bm c1 = None \<and>
      status c1 = SetReason ''no backup'' sample_status \<and> eventCh c1 = [same_spec_event] \<and>
      run_iter sample_env RecvEventCh (c1, Some (FatalErr ''no backup''))
        = Some (Returns Continue, (c2, Some (FatalErr ''no backup''))) \<and>
      Cluster.cluster c2 = sample_record \<and> bm c2 = None \<and>
      status c2 = SetReason ''no backup'' sample_status \<and> eventCh c2 = [])"
proof -
  have ev: "evtyp same_spec_event = eventModifyCluster"
    "clusterEvent.cluster same_spec_event = Some other_record"
    by (simp_all add: same_spec_event_def)
  have same:
    "ClusterSpec.Size (Spec other_record) = ClusterSpec.Size (Spec (Cluster.cluster degraded_controller))"
    "Version (Spec other_record) = Version (Spec (Cluster.cluster degraded_controller))"
    "Paused (Spec other_record) = Paused (Spec (Cluster.cluster degraded_controller))"
    "Backup (Spec other_record) = Backup (Spec (Cluster.cluster degraded_controller))"
    by (simp_all add: other_record_def degraded_controller_def sample_defs)
  have queue: "eventCh degraded_controller = same_spec_event # same_spec_event # []"
    by (simp add: degraded_controller_def)
  have inv: "rerr_recorded (degraded_controller, Some (FatalErr ''no backup''))"
    by (simp add: rerr_recorded_def degraded_controller_def SetReason_def)
  from modify_with_equal_spec_is_ignored [OF ev same queue inv, of sample_env sample_env] obtain c1 c2 where
    s1: "run_iter sample_env RecvEventCh (degraded_controller, Some (FatalErr ''no backup''))
           = Some (Returns Continue, (c1, Some (FatalErr ''no backup'')))"
    and f1: "Cluster.cluster c1 = Cluster.cluster degraded_controller" "bm c1 = bm degraded_controller"
      "status c1 = status degraded_controller" "eventCh c1 = [same_spec_event]"
    and s2: "run_iter sample_env RecvEventCh (c1, Some (FatalErr ''no backup''))
           = Some (Returns Continue, (c2, Some (FatalErr ''no backup'')))"
    and f2: "Cluster.cluster c2 = Cluster.cluster c1" "bm c2 = bm c1" "status c2 = status c1"
      "eventCh c2 = []"
    by blast
  from f1 f2 have g:
    "Cluster.cluster c1 = sample_record" "bm c1 = None" "status c1 = SetReason ''no backup'' sample_status"
    "Cluster.cluster c2 = sample_record" "bm c2 = None" "status c2 = SetReason ''no backup'' sample_status"
    by (simp_all add: degraded_controller_def sample_controller_def New_def sample_env_def sample_record_def)
  from inv s1 s2 g f1(4) f2(4) show ?thesis by blast
qed

lemma run_tail_frame:
  "run_tail (c, rerr) = (r, (c1, rerr1)) \<Longrightarrow>
     r = Returns Continue \<and> rerr1 = rerr \<and> Cluster.cluster c1 = Cluster.cluster c \<and> bm c1 = bm c \<and>
     trace c1 = trace c \<and> members c1 = members c"
  by (auto simp add: run_tail_def split: option.splits if_splits)

lemma updateBackupPolicy_cluster:
  "updateBackupPolicy e ob nb c = (r, c1) \<Longrightarrow> Cluster.cluster c1 = Cluster.cluster c"
  by (auto simp add: updateBackupPolicy_def Let_def split: if_splits sum.splits option.splits)

lemma isSpecEqual_refl [simp]: "isSpecEqual s s"
  by (simp add: isSpecEqual_iff)

text \<open>The same holds for every Modify event: once the loop has handled it and goes on, the
  record carries the spec of the event, so the same event is ignored when it comes again.\<close>

lemma run_event_modify_twice:
  assumes ev: "evtyp ev = eventModifyCluster"
    and first: "run_event e ev (c, rerr) = (Returns Continue, (c1, rerr1))"
  shows "run_event e2 ev (c1, rerr1) = (Returns Continue, (snd (refreshTLSConfig e2 c1), rerr1))"
proof -
  obtain r0 c0 where tls: "refreshTLSConfig e c = (r0, c0)"
    by (cases "refreshTLSConfig e c")
  note fr = refreshTLSConfig_frame [OF tls]
  from ev first tls obtain ncl where ncl: "clusterEvent.cluster ev = Some ncl"
    by (cases "clusterEvent.cluster ev") (auto simp add: run_event_def)
  have "\<exists>d. run_tail (d, rerr) = (Returns Continue, (c1, rerr1)) \<and>
      isSpecEqual (Spec ncl) (Spec (Cluster.cluster d))"
  proof (cases "isSpecEqual (Spec ncl) (Spec (Cluster.cluster c0))")
    case True
    with ev first tls ncl show ?thesis
      by (auto simp add: run_event_def)
  next
    case False
    note neq = this
    show ?thesis
    proof (cases "isBackupPolicyEqual (Backup (Spec (Cluster.cluster c0))) (Backup (Spec ncl))")
      case True
      with neq ev first tls ncl
      have "run_tail (c0\<lparr>Cluster.cluster := ncl\<rparr>, rerr) = (Returns Continue, (c1, rerr1))"
        by (simp add: run_event_def Let_def)
      then show ?thesis by (intro exI [of _ "c0\<lparr>Cluster.cluster := ncl\<rparr>"]) simp
    next
      case False
      obtain ur c3 where ubp: "updateBackupPolicy e (Backup (Spec (Cluster.cluster c0))) (Backup (Spec ncl))
          (c0\<lparr>Cluster.cluster := ncl\<rparr>) = (ur, c3)"
        by (cases "updateBackupPolicy e (Backup (Spec (Cluster.cluster c0))) (Backup (Spec ncl))
          (c0\<lparr>Cluster.cluster := ncl\<rparr>)")
      from updateBackupPolicy_cluster [OF ubp] have cl3: "Cluster.cluster c3 = ncl" by simp
      from False neq ev first tls ncl ubp
      have "run_tail (c3, rerr) = (Returns Continue, (c1, rerr1))"
        by (auto simp add: run_event_def Let_def split: outcome.splits option.splits)
      with cl3 show ?thesis by (intro exI [of _ c3]) simp
    qed
  qed
  then obtain d where d: "run_tail (d, rerr) = (Returns Continue, (c1, rerr1))"
    and eq: "isSpecEqual (Spec ncl) (Spec (Cluster.cluster d))"
    by blast
  from run_tail_frame [OF d] eq have eq1: "isSpecEqual (Spec ncl) (Spec (Cluster.cluster c1))"
    by simp
  from run_tail_establishes_recorded [OF d] have "rerr_recorded (c1, rerr1)" .
  from run_event_equal_spec [OF ev ncl eq1 this] show ?thesis .
qed

subsection \<open>Backup policy updates\<close>

text \<open>
  C4. \<^verbatim>\<open>updateBackupPolicy\<close> does not reach its \<^verbatim>\<open>default\<close> branch when the two policies differ.
  From no policy to a policy it constructs the backup manager and, when that succeeds, runs the
  manager's setup and keeps the manager; from a policy to no policy it deletes the backup sidecar
  and drops the manager; between two policies it updates the sidecar with the controller's (new)
  record, the manager staying (the last two for a controller that holds a manager). In the run
  loop, a Modify event with another spec whose backup policy equals the current one makes no
  backup-manager call and leaves the manager as it is, and when the policies differ and
  \<^verbatim>\<open>updateBackupPolicy\<close> returns an error, the loop stores the error's text as the status reason
  and returns.
\<close>

theorem updateBackupPolicy_transitions:
  "(\<not> isBackupPolicyEqual ob nb \<longrightarrow>
      fst (updateBackupPolicy e ob nb c) \<noteq> Panics ''unexpected backup spec comparison'') \<and>
   (ob = None \<and> nb \<noteq> None \<longrightarrow>
      updateBackupPolicy e ob nb c =
        (case newBackupManager e (trace c) (Cluster.cluster c) of
           Inl er \<Rightarrow>
             (Returns (Some er), c\<lparr>bm := None, trace := trace c @ [NewBackupManager (Cluster.cluster c)]\<rparr>)
         | Inr b \<Rightarrow>
             (Returns (bm_setup e (trace c @ [NewBackupManager (Cluster.cluster c)]) b),
              c\<lparr>bm := Some b, trace := trace c @ [NewBackupManager (Cluster.cluster c), BMSetup b]\<rparr>))) \<and>
   (\<forall>b. ob \<noteq> None \<and> nb = None \<and> bm c = Some b \<longrightarrow>
      updateBackupPolicy e ob nb c =
        (Returns None, c\<lparr>bm := None, trace := trace c @ [BMDeleteBackupSidecar b]\<rparr>)) \<and>
   (\<forall>b. ob \<noteq> None \<and> nb \<noteq> None \<and> bm c = Some b \<longrightarrow>
      updateBackupPolicy e ob nb c =
        (Returns (bm_updateSidecar e (trace c) b (Cluster.cluster c)),
         c\<lparr>trace := trace c @ [BMUpdateSidecar b (Cluster.cluster c)]\<rparr>)) \<and>
   (\<forall>ev ncl terr c1.
      evtyp ev = eventModifyCluster \<and> clusterEvent.cluster ev = Some ncl \<and>
      refreshTLSConfig e c = (terr, c1) \<and> \<not> isSpecEqual (Spec ncl) (Spec (Cluster.cluster c)) \<longrightarrow>
      (isBackupPolicyEqual (Backup (Spec (Cluster.cluster c))) (Backup (Spec ncl)) \<longrightarrow>
         (\<exists>c2. run_event e ev (c, rerr) = (Returns Continue, (c2, rerr)) \<and>
               Cluster.cluster c2 = ncl \<and> bm c2 = bm c \<and> trace c2 = trace c1)) \<and>
      (\<not> isBackupPolicyEqual (Backup (Spec (Cluster.cluster c))) (Backup (Spec ncl)) \<longrightarrow>
         (\<forall>er c3.
            updateBackupPolicy e (Backup (Spec (Cluster.cluster c))) (Backup (Spec ncl))
               (c1\<lparr>Cluster.cluster := ncl\<rparr>) = (Returns (Some er), c3) \<longrightarrow>
            run_event e ev (c, rerr) =
              (Returns Return, (c3\<lparr>status := SetReason (Error er) (status c3)\<rparr>, rerr)) \<and>
            Reason (SetReason (Error er) (status c3)) = Error er)))"
proof (intro conjI allI impI)
  assume "\<not> isBackupPolicyEqual ob nb"
  then show "fst (updateBackupPolicy e ob nb c) \<noteq> Panics ''unexpected backup spec comparison''"
    by (auto simp add: updateBackupPolicy_def isBackupPolicyEqual_def Let_def nilDereference_def
        split: sum.splits option.splits)
next
  assume "ob = None \<and> nb \<noteq> None"
  then show "updateBackupPolicy e ob nb c =
        (case newBackupManager e (trace c) (Cluster.cluster c) of
           Inl er \<Rightarrow>
             (Returns (Some er), c\<lparr>bm := None, trace := trace c @ [NewBackupManager (Cluster.cluster c)]\<rparr>)
         | Inr b \<Rightarrow>
             (Returns (bm_setup e (trace c @ [NewBackupManager (Cluster.cluster c)]) b),
              c\<lparr>bm := Some b, trace := trace c @ [NewBackupManager (Cluster.cluster c), BMSetup b]\<rparr>))"
    by (auto simp add: updateBackupPolicy_def Let_def split: sum.splits)
next
  fix b assume "ob \<noteq> None \<and> nb = None \<and> bm c = Some b"
  then show "updateBackupPolicy e ob nb c =
        (Returns None, c\<lparr>bm := None, trace := trace c @ [BMDeleteBackupSidecar b]\<rparr>)"
    by (auto simp add: updateBackupPolicy_def)
next
  fix b assume "ob \<noteq> None \<and> nb \<noteq> None \<and> bm c = Some b"
  then show "updateBackupPolicy e ob nb c =
        (Returns (bm_updateSidecar e (trace c) b (Cluster.cluster c)),
         c\<lparr>trace := trace c @ [BMUpdateSidecar b (Cluster.cluster c)]\<rparr>)"
    by (auto simp add: updateBackupPolicy_def)
next
  fix ev :: clusterEvent and ncl terr and c1 :: Cluster
  assume h: "evtyp ev = eventModifyCluster \<and> clusterEvent.cluster ev = Some ncl \<and>
      refreshTLSConfig e c = (terr, c1) \<and> \<not> isSpecEqual (Spec ncl) (Spec (Cluster.cluster c))"
    and eq: "isBackupPolicyEqual (Backup (Spec (Cluster.cluster c))) (Backup (Spec ncl))"
  from h have fr: "Cluster.cluster c1 = Cluster.cluster c" "bm c1 = bm c"
    using refreshTLSConfig_frame [of e c terr c1] by simp_all
  obtain r c2 rerr2 where t: "run_tail (c1\<lparr>Cluster.cluster := ncl\<rparr>, rerr) = (r, (c2, rerr2))"
    by (cases "run_tail (c1\<lparr>Cluster.cluster := ncl\<rparr>, rerr)") auto
  from run_tail_frame [OF t] h eq fr t
  show "\<exists>c2. run_event e ev (c, rerr) = (Returns Continue, (c2, rerr)) \<and>
               Cluster.cluster c2 = ncl \<and> bm c2 = bm c \<and> trace c2 = trace c1"
    by (simp add: run_event_def Let_def)
next
  fix ev :: clusterEvent and ncl terr and c1 :: Cluster and er c3
  assume h: "evtyp ev = eventModifyCluster \<and> clusterEvent.cluster ev = Some ncl \<and>
      refreshTLSConfig e c = (terr, c1) \<and> \<not> isSpecEqual (Spec ncl) (Spec (Cluster.cluster c))"
    and neq: "\<not> isBackupPolicyEqual (Backup (Spec (Cluster.cluster c))) (Backup (Spec ncl))"
    and u: "updateBackupPolicy e (Backup (Spec (Cluster.cluster c))) (Backup (Spec ncl))
               (c1\<lparr>Cluster.cluster := ncl\<rparr>) = (Returns (Some er), c3)"
  from h have fr: "Cluster.cluster c1 = Cluster.cluster c"
    using refreshTLSConfig_frame [of e c terr c1] by simp
  from h neq u fr
  show "run_event e ev (c, rerr) =
              (Returns Return, (c3\<lparr>status := SetReason (Error er) (status c3)\<rparr>, rerr))"
    by (simp add: run_event_def Let_def)
  show "Reason (SetReason (Error er) (status c3)) = Error er"
    by (simp add: SetReason_def)
qed


theorem updateBackupPolicy_transitions_witness:
  "updateBackupPolicy sample_env None (Some sample_policy) sample_controller =
     (Returns None,
      sample_controller\<lparr>bm := Some (BackupManager 0),
                        trace := [NewBackupManager sample_record, BMSetup (BackupManager 0)]\<rparr>) \<and>
   updateBackupPolicy sample_env (Some sample_policy) None backup_controller =
     (Returns None, backup_controller\<lparr>bm := None, trace := [BMDeleteBackupSidecar (BackupManager 0)]\<rparr>) \<and>
   updateBackupPolicy sample_env (Some sample_policy) (Some (sample_policy\<lparr>MaxBackups := 7\<rparr>)) backup_controller =
     (Returns None, backup_controller\<lparr>trace := [BMUpdateSidecar (BackupManager 0) backup_record]\<rparr>) \<and>
   run_event failing_setup_env (modify backup_record) (sample_controller, None) =
     (Returns Return,
      (sample_controller\<lparr>Cluster.cluster := backup_record, bm := Some (BackupManager 0),
                         trace := [NewBackupManager backup_record, BMSetup (BackupManager 0)],
                         status := SetReason ''no sidecar'' sample_status\<rparr>, None)) \<and>
   (\<exists>c2. run_event sample_env (modify resized_record) (sample_controller, None) = (Returns Continue, (c2, None)) \<and>
         Cluster.cluster c2 = resized_record \<and> bm c2 = None \<and> trace c2 = [])"
proof -
  note defs = sample_defs sample_policy_def backup_controller_def backup_record_def
    resized_record_def modify_def isSpecEqual_def isBackupPolicyEqual_def
  have tls: "refreshTLSConfig failing_setup_env sample_controller = (None, sample_controller)"
    "refreshTLSConfig sample_env sample_controller = (None, sample_controller)"
    by (simp_all add: refreshTLSConfig_def isSecureClient_def IsSecureClient_def sample_defs)
  have a: "updateBackupPolicy sample_env None (Some sample_policy) sample_controller =
     (Returns None,
      sample_controller\<lparr>bm := Some (BackupManager 0),
                        trace := [NewBackupManager sample_record, BMSetup (BackupManager 0)]\<rparr>)"
    using updateBackupPolicy_transitions [where ob = None and nb = "Some sample_policy" and e = sample_env and c = sample_controller]
    by (simp add: defs)
  have b: "updateBackupPolicy sample_env (Some sample_policy) None backup_controller =
     (Returns None, backup_controller\<lparr>bm := None, trace := [BMDeleteBackupSidecar (BackupManager 0)]\<rparr>)"
    using updateBackupPolicy_transitions [where ob = "Some sample_policy" and nb = None and e = sample_env and c = backup_controller]
    by (simp add: defs)
  have c: "updateBackupPolicy sample_env (Some sample_policy) (Some (sample_policy\<lparr>MaxBackups := 7\<rparr>))
       backup_controller =
     (Returns None, backup_controller\<lparr>trace := [BMUpdateSidecar (BackupManager 0) backup_record]\<rparr>)"
    using updateBackupPolicy_transitions [where ob = "Some sample_policy" and nb = "Some (sample_policy\<lparr>MaxBackups := 7\<rparr>)"
        and e = sample_env and c = backup_controller]
    by (simp add: defs)
  let ?c3 = "sample_controller\<lparr>Cluster.cluster := backup_record, bm := Some (BackupManager 0),
                         trace := [NewBackupManager backup_record, BMSetup (BackupManager 0)]\<rparr>"
  have u: "updateBackupPolicy failing_setup_env (Backup (Spec (Cluster.cluster sample_controller)))
      (Backup (Spec backup_record)) (sample_controller\<lparr>Cluster.cluster := backup_record\<rparr>)
      = (Returns (Some (Err ''no sidecar'')), ?c3)"
    using updateBackupPolicy_transitions [where ob = None and nb = "Some sample_policy" and e = failing_setup_env
        and c = "sample_controller\<lparr>Cluster.cluster := backup_record\<rparr>"]
    by (simp add: defs failing_setup_env_def)
  have d: "run_event failing_setup_env (modify backup_record) (sample_controller, None) =
     (Returns Return,
      (sample_controller\<lparr>Cluster.cluster := backup_record, bm := Some (BackupManager 0),
                         trace := [NewBackupManager backup_record, BMSetup (BackupManager 0)],
                         status := SetReason ''no sidecar'' sample_status\<rparr>, None))"
  proof -
    have pre: "evtyp (modify backup_record) = eventModifyCluster \<and>
        clusterEvent.cluster (modify backup_record) = Some backup_record \<and>
        refreshTLSConfig failing_setup_env sample_controller = (None, sample_controller) \<and>
        \<not> isSpecEqual (Spec backup_record) (Spec (Cluster.cluster sample_controller))"
      using tls by (simp add: defs)
    have neq: "\<not> isBackupPolicyEqual (Backup (Spec (Cluster.cluster sample_controller)))
        (Backup (Spec backup_record))"
      by (simp add: defs)
    from updateBackupPolicy_transitions [where e = failing_setup_env and c = sample_controller and rerr = None]
    have "run_event failing_setup_env (modify backup_record) (sample_controller, None) =
        (Returns Return, (?c3\<lparr>status := SetReason (Error (Err ''no sidecar'')) (status ?c3)\<rparr>, None))"
      using pre neq u by blast
    then show ?thesis by (simp add: sample_controller_def New_def sample_env_def sample_record_def)
  qed
  have e: "\<exists>c2. run_event sample_env (modify resized_record) (sample_controller, None) = (Returns Continue, (c2, None)) \<and>
         Cluster.cluster c2 = resized_record \<and> bm c2 = None \<and> trace c2 = []"
  proof -
    have pre: "evtyp (modify resized_record) = eventModifyCluster \<and>
        clusterEvent.cluster (modify resized_record) = Some resized_record \<and>
        refreshTLSConfig sample_env sample_controller = (None, sample_controller) \<and>
        \<not> isSpecEqual (Spec resized_record) (Spec (Cluster.cluster sample_controller))"
      using tls by (simp add: defs)
    have eq: "isBackupPolicyEqual (Backup (Spec (Cluster.cluster sample_controller)))
        (Backup (Spec resized_record))"
      by (simp add: defs)
    from updateBackupPolicy_transitions [where e = sample_env and c = sample_controller and rerr = None]
    have "\<exists>c2. run_event sample_env (modify resized_record) (sample_controller, None) = (Returns Continue, (c2, None)) \<and>
         Cluster.cluster c2 = resized_record \<and> bm c2 = bm sample_controller \<and> trace c2 = trace sample_controller"
      using pre eq by blast
    then show ?thesis by (simp add: sample_controller_def New_def)
  qed
  from a b c d e show ?thesis by blast
qed


subsection \<open>Setup\<close>

lemma updateCRStatus_keeps_status:
  "updateCRStatus e c = (r, c1) \<Longrightarrow> status c1 = status c"
  by (auto simp add: updateCRStatus_def Let_def split: sum.splits if_splits)

lemma phase_distinct [simp]:
  "ClusterPhaseNone \<noteq> ClusterPhaseCreating" "ClusterPhaseNone \<noteq> ClusterPhaseRunning"
  "ClusterPhaseNone \<noteq> ClusterPhaseFailed" "ClusterPhaseCreating \<noteq> ClusterPhaseRunning"
  "ClusterPhaseCreating \<noteq> ClusterPhaseFailed" "ClusterPhaseRunning \<noteq> ClusterPhaseFailed"
  "ClusterPhaseCreating \<noteq> ClusterPhaseNone" "ClusterPhaseRunning \<noteq> ClusterPhaseNone"
  "ClusterPhaseFailed \<noteq> ClusterPhaseNone" "ClusterPhaseRunning \<noteq> ClusterPhaseCreating"
  "ClusterPhaseFailed \<noteq> ClusterPhaseCreating" "ClusterPhaseFailed \<noteq> ClusterPhaseRunning"
  by (simp_all add: ClusterPhaseNone_def ClusterPhaseCreating_def ClusterPhaseRunning_def
      ClusterPhaseFailed_def)

lemma setup_creating:
  "Validate e (Spec (Cluster.cluster c)) = None \<Longrightarrow>
   ClusterStatus.Phase (status c) = ClusterPhaseCreating \<Longrightarrow>
   Cluster_setup e c = (Returns (Some (errCreatedCluster e)), c)"
  by (simp add: Cluster_setup_def)

lemma setup_failed:
  assumes "Validate e (Spec (Cluster.cluster c)) = None"
    and "ClusterStatus.Phase (status c) = ClusterPhaseFailed"
  shows "Cluster_setup e c =
      (Panics ''for Failed phase, we update the status to Running, and panic'',
       snd (updateCRStatus e (c\<lparr>status := (status c)\<lparr>ClusterStatus.Phase := ClusterPhaseRunning\<rparr>\<rparr>)))"
  using assms by (simp add: Cluster_setup_def)

lemma setup_continues:
  assumes "Validate e (Spec (Cluster.cluster c)) = None"
    and "ClusterStatus.Phase (status c) = ClusterPhaseNone \<and> shouldCreateCluster
       \<or> ClusterStatus.Phase (status c) = ClusterPhaseRunning \<and> \<not> shouldCreateCluster"
  shows "Cluster_setup e c =
     (case refreshTLSConfig e c of
        (Some er, c1) \<Rightarrow> (Returns (Some (Err (''faled to refresh tlsConfig: '' @ Error er))), c1)
      | (None, c1) \<Rightarrow>
         (case (case Backup (Spec (Cluster.cluster c1)) of
                  None \<Rightarrow> (None, c1)
                | Some bp \<Rightarrow>
                   (let c2 = c1\<lparr>trace := trace c1 @ [NewBackupManager (Cluster.cluster c1)]\<rparr>
                    in case newBackupManager e (trace c1) (Cluster.cluster c1) of
                         Inl er \<Rightarrow> (Some er, c2\<lparr>bm := None\<rparr>)
                       | Inr b \<Rightarrow>
                          (if \<not> shouldCreateCluster
                           then (bm_upgradeIfNeeded e (trace c2) b,
                                 c2\<lparr>bm := Some b, trace := trace c2 @ [BMUpgradeIfNeeded b]\<rparr>)
                           else (None, c2\<lparr>bm := Some b\<rparr>)))) of
            (Some er, c3) \<Rightarrow> (Returns (Some er), c3)
          | (None, c3) \<Rightarrow>
             (if shouldCreateCluster
              then (case create e c3 of (r, c4) \<Rightarrow> (Returns r, c4))
              else (Returns None, c3))))"
  using assms
  by (auto simp add: Cluster_setup_def Let_def split: prod.splits option.splits sum.splits)

lemma setup_running_frame:
  assumes valid: "Validate e (Spec (Cluster.cluster c)) = None"
    and ph: "ClusterStatus.Phase (status c) = ClusterPhaseRunning"
  shows "\<exists>r c1. Cluster_setup e c = (Returns r, c1) \<and> status c1 = status c \<and>
            Cluster.cluster c1 = Cluster.cluster c \<and> members c1 = members c \<and>
            memberCounter c1 = memberCounter c \<and>
            filter creation_effect (trace c1) = filter creation_effect (trace c)"
proof -
  obtain r0 c0 where tls: "refreshTLSConfig e c = (r0, c0)"
    by (cases "refreshTLSConfig e c")
  note fr = refreshTLSConfig_frame [OF tls]
  from fr have tr: "filter creation_effect (trace c0) = filter creation_effect (trace c)"
    by (simp add: creation_effect_def)
  from ph have "ClusterStatus.Phase (status c) = ClusterPhaseNone \<and> False
       \<or> ClusterStatus.Phase (status c) = ClusterPhaseRunning \<and> \<not> False"
    by simp
  note eq = setup_continues [OF valid this]
  show ?thesis
  proof (cases r0)
    case (Some er)
    with eq tls fr tr show ?thesis by simp
  next
    case None
    note r0 = this
    show ?thesis
    proof (cases "Backup (Spec (Cluster.cluster c))")
      case None
      with eq tls fr tr r0 show ?thesis by simp
    next
      case (Some bp)
      with eq tls fr tr r0 show ?thesis
        by (cases "newBackupManager e (trace c0) (Cluster.cluster c)";
            cases "bm_upgradeIfNeeded e (trace c0 @ [NewBackupManager (Cluster.cluster c)])
                     (projr (newBackupManager e (trace c0) (Cluster.cluster c)))")
           (simp_all add: Let_def creation_effect_def)
    qed
  qed
qed

text \<open>
  C1. After a successful validation of the spec, \<^verbatim>\<open>setup\<close> dispatches on the phase of the
  status. Creating: it returns the error \<^verbatim>\<open>errCreatedCluster\<close> and the controller, the trace of
  external calls included, is unchanged. Failed: it sets the phase to Running, calls
  \<^verbatim>\<open>updateCRStatus\<close> (which, when the record's status was the in-memory status, sends the record
  with phase Running) and panics. Running: it returns without any call that creates something,
  the status, record, members and member counter unchanged, and with a backup policy, once the
  TLS refresh and the construction of the backup manager have succeeded, it calls
  \<^verbatim>\<open>upgradeIfNeeded\<close> and returns its result. None: once the TLS refresh and, with a backup
  policy, the construction of the backup manager have succeeded, its result is that of
  \<^verbatim>\<open>create\<close>.
\<close>

theorem setup_dispatches_on_phase:
  assumes valid: "Validate e (Spec (Cluster.cluster c)) = None"
  shows
  "(ClusterStatus.Phase (status c) = ClusterPhaseCreating \<longrightarrow>
      Cluster_setup e c = (Returns (Some (errCreatedCluster e)), c)) \<and>
   (ClusterStatus.Phase (status c) = ClusterPhaseFailed \<longrightarrow>
      (\<exists>c1. Cluster_setup e c =
              (Panics ''for Failed phase, we update the status to Running, and panic'', c1) \<and>
            status c1 = (status c)\<lparr>ClusterStatus.Phase := ClusterPhaseRunning\<rparr> \<and>
            (EtcdCluster.Status (Cluster.cluster c) = status c \<longrightarrow>
               trace c1 = trace c @
                 [CRUpdate ((Cluster.cluster c)\<lparr>EtcdCluster.Status :=
                      (status c)\<lparr>ClusterStatus.Phase := ClusterPhaseRunning\<rparr>\<rparr>)]))) \<and>
   (ClusterStatus.Phase (status c) = ClusterPhaseRunning \<longrightarrow>
      (\<exists>r c1. Cluster_setup e c = (Returns r, c1) \<and> status c1 = status c \<and>
            Cluster.cluster c1 = Cluster.cluster c \<and> members c1 = members c \<and>
            memberCounter c1 = memberCounter c \<and>
            filter creation_effect (trace c1) = filter creation_effect (trace c)) \<and>
      (\<forall>c0 bp b.
         refreshTLSConfig e c = (None, c0) \<and> Backup (Spec (Cluster.cluster c)) = Some bp \<and>
         newBackupManager e (trace c0) (Cluster.cluster c) = Inr b \<longrightarrow>
         Cluster_setup e c =
           (Returns (bm_upgradeIfNeeded e (trace c0 @ [NewBackupManager (Cluster.cluster c)]) b),
            c0\<lparr>bm := Some b,
               trace := trace c0 @ [NewBackupManager (Cluster.cluster c), BMUpgradeIfNeeded b]\<rparr>)) \<and>
      (\<forall>c0. refreshTLSConfig e c = (None, c0) \<and> Backup (Spec (Cluster.cluster c)) = None \<longrightarrow>
         Cluster_setup e c = (Returns None, c0))) \<and>
   (ClusterStatus.Phase (status c) = ClusterPhaseNone \<longrightarrow>
      (\<forall>c0. refreshTLSConfig e c = (None, c0) \<and> Backup (Spec (Cluster.cluster c)) = None \<longrightarrow>
         Cluster_setup e c = (case create e c0 of (r, c4) \<Rightarrow> (Returns r, c4))) \<and>
      (\<forall>c0 bp b.
         refreshTLSConfig e c = (None, c0) \<and> Backup (Spec (Cluster.cluster c)) = Some bp \<and>
         newBackupManager e (trace c0) (Cluster.cluster c) = Inr b \<longrightarrow>
         Cluster_setup e c =
           (case create e (c0\<lparr>trace := trace c0 @ [NewBackupManager (Cluster.cluster c)], bm := Some b\<rparr>) of
              (r, c4) \<Rightarrow> (Returns r, c4))))"
proof (intro conjI impI allI)
  assume "ClusterStatus.Phase (status c) = ClusterPhaseCreating"
  with valid show "Cluster_setup e c = (Returns (Some (errCreatedCluster e)), c)"
    by (rule setup_creating)
next
  assume ph: "ClusterStatus.Phase (status c) = ClusterPhaseFailed"
  let ?d = "c\<lparr>status := (status c)\<lparr>ClusterStatus.Phase := ClusterPhaseRunning\<rparr>\<rparr>"
  obtain r c1 where u: "updateCRStatus e ?d = (r, c1)"
    by (cases "updateCRStatus e ?d")
  from updateCRStatus_keeps_status [OF u] have st: "status c1 = status ?d" .
  have "EtcdCluster.Status (Cluster.cluster c) = status c \<longrightarrow>
      trace c1 = trace c @ [CRUpdate ((Cluster.cluster c)\<lparr>EtcdCluster.Status :=
                      (status c)\<lparr>ClusterStatus.Phase := ClusterPhaseRunning\<rparr>\<rparr>)]"
  proof
    assume eq: "EtcdCluster.Status (Cluster.cluster c) = status c"
    have "(status c)\<lparr>ClusterStatus.Phase := ClusterPhaseRunning\<rparr> \<noteq> status c"
    proof
      assume "(status c)\<lparr>ClusterStatus.Phase := ClusterPhaseRunning\<rparr> = status c"
      then have "ClusterStatus.Phase ((status c)\<lparr>ClusterStatus.Phase := ClusterPhaseRunning\<rparr>)
          = ClusterStatus.Phase (status c)" by simp
      with ph show False by simp
    qed
    with eq u show "trace c1 = trace c @ [CRUpdate ((Cluster.cluster c)\<lparr>EtcdCluster.Status :=
                      (status c)\<lparr>ClusterStatus.Phase := ClusterPhaseRunning\<rparr>\<rparr>)]"
      by (auto simp add: updateCRStatus_def Let_def split: sum.splits)
  qed
  with setup_failed [OF valid ph] u st
  show "\<exists>c1. Cluster_setup e c =
              (Panics ''for Failed phase, we update the status to Running, and panic'', c1) \<and>
            status c1 = (status c)\<lparr>ClusterStatus.Phase := ClusterPhaseRunning\<rparr> \<and>
            (EtcdCluster.Status (Cluster.cluster c) = status c \<longrightarrow>
               trace c1 = trace c @
                 [CRUpdate ((Cluster.cluster c)\<lparr>EtcdCluster.Status :=
                      (status c)\<lparr>ClusterStatus.Phase := ClusterPhaseRunning\<rparr>\<rparr>)])"
    by simp
next
  assume ph: "ClusterStatus.Phase (status c) = ClusterPhaseRunning"
  from setup_running_frame [OF valid ph]
  show "\<exists>r c1. Cluster_setup e c = (Returns r, c1) \<and> status c1 = status c \<and>
            Cluster.cluster c1 = Cluster.cluster c \<and> members c1 = members c \<and>
            memberCounter c1 = memberCounter c \<and>
            filter creation_effect (trace c1) = filter creation_effect (trace c)" .
next
  fix c0 :: Cluster and bp b
  assume ph: "ClusterStatus.Phase (status c) = ClusterPhaseRunning"
    and h: "refreshTLSConfig e c = (None, c0) \<and> Backup (Spec (Cluster.cluster c)) = Some bp \<and>
         newBackupManager e (trace c0) (Cluster.cluster c) = Inr b"
  from ph have "ClusterStatus.Phase (status c) = ClusterPhaseNone \<and> False
       \<or> ClusterStatus.Phase (status c) = ClusterPhaseRunning \<and> \<not> False" by simp
  note eq = setup_continues [OF valid this]
  from h refreshTLSConfig_frame [of e c None c0] have "Cluster.cluster c0 = Cluster.cluster c" by simp
  with eq h show "Cluster_setup e c =
           (Returns (bm_upgradeIfNeeded e (trace c0 @ [NewBackupManager (Cluster.cluster c)]) b),
            c0\<lparr>bm := Some b,
               trace := trace c0 @ [NewBackupManager (Cluster.cluster c), BMUpgradeIfNeeded b]\<rparr>)"
    by (cases "bm_upgradeIfNeeded e (trace c0 @ [NewBackupManager (Cluster.cluster c)]) b")
       (simp_all add: Let_def)
next
  fix c0 :: Cluster
  assume ph: "ClusterStatus.Phase (status c) = ClusterPhaseRunning"
    and h: "refreshTLSConfig e c = (None, c0) \<and> Backup (Spec (Cluster.cluster c)) = None"
  from ph have "ClusterStatus.Phase (status c) = ClusterPhaseNone \<and> False
       \<or> ClusterStatus.Phase (status c) = ClusterPhaseRunning \<and> \<not> False" by simp
  note eq = setup_continues [OF valid this]
  from h refreshTLSConfig_frame [of e c None c0] have "Cluster.cluster c0 = Cluster.cluster c" by simp
  with eq h show "Cluster_setup e c = (Returns None, c0)" by simp
next
  fix c0 :: Cluster
  assume ph: "ClusterStatus.Phase (status c) = ClusterPhaseNone"
    and h: "refreshTLSConfig e c = (None, c0) \<and> Backup (Spec (Cluster.cluster c)) = None"
  from ph have "ClusterStatus.Phase (status c) = ClusterPhaseNone \<and> True
       \<or> ClusterStatus.Phase (status c) = ClusterPhaseRunning \<and> \<not> True" by simp
  note eq = setup_continues [OF valid this]
  from h refreshTLSConfig_frame [of e c None c0] have "Cluster.cluster c0 = Cluster.cluster c" by simp
  with eq h show "Cluster_setup e c = (case create e c0 of (r, c4) \<Rightarrow> (Returns r, c4))" by simp
next
  fix c0 :: Cluster and bp b
  assume ph: "ClusterStatus.Phase (status c) = ClusterPhaseNone"
    and h: "refreshTLSConfig e c = (None, c0) \<and> Backup (Spec (Cluster.cluster c)) = Some bp \<and>
         newBackupManager e (trace c0) (Cluster.cluster c) = Inr b"
  from ph have "ClusterStatus.Phase (status c) = ClusterPhaseNone \<and> True
       \<or> ClusterStatus.Phase (status c) = ClusterPhaseRunning \<and> \<not> True" by simp
  note eq = setup_continues [OF valid this]
  from h refreshTLSConfig_frame [of e c None c0] have "Cluster.cluster c0 = Cluster.cluster c" by simp
  with eq h show "Cluster_setup e c =
           (case create e (c0\<lparr>trace := trace c0 @ [NewBackupManager (Cluster.cluster c)], bm := Some b\<rparr>) of
              (r, c4) \<Rightarrow> (Returns r, c4))"
    by (simp add: Let_def)
qed


theorem setup_dispatches_on_phase_witness:
  "Cluster_setup sample_env creating_controller =
     (Returns (Some (Err ''cluster failed to be created'')), creating_controller) \<and>
   (\<exists>c1. Cluster_setup sample_env failed_controller =
           (Panics ''for Failed phase, we update the status to Running, and panic'', c1) \<and>
         status c1 = SetPhase ClusterPhaseRunning sample_status \<and>
         trace c1 = [CRUpdate (in_phase ClusterPhaseRunning sample_record)]) \<and>
   Cluster_setup sample_env running_controller =
     (Returns None,
      running_controller\<lparr>trace := [NewBackupManager (in_phase ClusterPhaseRunning backup_record),
                                    BMUpgradeIfNeeded (BackupManager 0)],
                         bm := Some (BackupManager 0)\<rparr>) \<and>
   Cluster_setup sample_env sample_controller =
     (case create sample_env sample_controller of (r, c4) \<Rightarrow> (Returns r, c4)) \<and>
   fst (Cluster_setup sample_env sample_controller) = Returns None \<and>
   ClusterStatus.Phase (status (snd (Cluster_setup sample_env sample_controller))) = ClusterPhaseCreating \<and>
   members (snd (Cluster_setup sample_env sample_controller)) = Some [sample_seed] \<and>
   trace (snd (Cluster_setup sample_env sample_controller)) =
     [CRUpdate (in_phase ClusterPhaseCreating sample_record), CollectCluster ''etcd'' ''uid-1'', UUIDNew,
      PodsCreate ''default'' sample_seed_pod, CreateClientService ''etcd'' ''default'' ''uid-1'',
      CreatePeerService ''etcd'' ''default'' ''uid-1'']"
proof -
  note defs = creating_controller_def failed_controller_def running_controller_def in_phase_def
    backup_record_def sample_policy_def SetPhase_def sample_defs
  have tls: "refreshTLSConfig sample_env sample_controller = (None, sample_controller)"
    "refreshTLSConfig sample_env running_controller = (None, running_controller)"
    by (simp_all add: refreshTLSConfig_def isSecureClient_def IsSecureClient_def defs)
  have a: "Cluster_setup sample_env creating_controller =
     (Returns (Some (Err ''cluster failed to be created'')), creating_controller)"
    using setup_dispatches_on_phase [of sample_env creating_controller] by (simp add: defs)
  have "\<exists>c1. Cluster_setup sample_env failed_controller =
           (Panics ''for Failed phase, we update the status to Running, and panic'', c1) \<and>
         status c1 = (status failed_controller)\<lparr>ClusterStatus.Phase := ClusterPhaseRunning\<rparr> \<and>
         trace c1 = trace failed_controller @
            [CRUpdate ((Cluster.cluster failed_controller)\<lparr>EtcdCluster.Status :=
                      (status failed_controller)\<lparr>ClusterStatus.Phase := ClusterPhaseRunning\<rparr>\<rparr>)]"
    using setup_dispatches_on_phase [of sample_env failed_controller] by (simp add: defs)
  then have b: "\<exists>c1. Cluster_setup sample_env failed_controller =
           (Panics ''for Failed phase, we update the status to Running, and panic'', c1) \<and>
         status c1 = SetPhase ClusterPhaseRunning sample_status \<and>
         trace c1 = [CRUpdate (in_phase ClusterPhaseRunning sample_record)]"
    by (simp add: defs)
  have "Cluster_setup sample_env running_controller =
     (Returns (bm_upgradeIfNeeded sample_env
          (trace running_controller @ [NewBackupManager (Cluster.cluster running_controller)])
          (BackupManager 0)),
      running_controller\<lparr>bm := Some (BackupManager 0),
         trace := trace running_controller @
           [NewBackupManager (Cluster.cluster running_controller), BMUpgradeIfNeeded (BackupManager 0)]\<rparr>)"
    using setup_dispatches_on_phase [of sample_env running_controller] tls by (simp add: defs)
  then have c: "Cluster_setup sample_env running_controller =
     (Returns None,
      running_controller\<lparr>trace := [NewBackupManager (in_phase ClusterPhaseRunning backup_record),
                                    BMUpgradeIfNeeded (BackupManager 0)],
                         bm := Some (BackupManager 0)\<rparr>)"
    by (simp add: defs)
  have d: "Cluster_setup sample_env sample_controller =
     (case create sample_env sample_controller of (r, c4) \<Rightarrow> (Returns r, c4))"
    using setup_dispatches_on_phase [of sample_env sample_controller] tls by (simp add: defs)
  have cr: "create sample_env sample_controller =
      (None,
       sample_controller
         \<lparr>Cluster.cluster := in_phase ClusterPhaseCreating sample_record,
          status := (SetPhase ClusterPhaseCreating sample_status)
                      \<lparr>Conditions := Some [''scaling up''], ClusterStatus.Size := 1\<rparr>,
          memberCounter := 1, members := Some [sample_seed],
          trace := [CRUpdate (in_phase ClusterPhaseCreating sample_record),
                    CollectCluster ''etcd'' ''uid-1'', UUIDNew, PodsCreate ''default'' sample_seed_pod,
                    CreateClientService ''etcd'' ''default'' ''uid-1'',
                    CreatePeerService ''etcd'' ''default'' ''uid-1'']\<rparr>)"
    by (simp add: create_def updateCRStatus_def prepareSeedMember_def bootstrap_def
        startSeedMember_def createPod_def setupServices_def isPodPVEnabled_def
        isPodHostPathEnabled_def isSecurePeer_def isSecureClient_def IsSecureClient_def Let_def
        ClusterPhaseCreating_def ClusterPhaseNone_def sample_seed_def sample_seed_pod_def defs)
  from d cr have e:
    "fst (Cluster_setup sample_env sample_controller) = Returns None"
    "ClusterStatus.Phase (status (snd (Cluster_setup sample_env sample_controller))) = ClusterPhaseCreating"
    "members (snd (Cluster_setup sample_env sample_controller)) = Some [sample_seed]"
    "trace (snd (Cluster_setup sample_env sample_controller)) =
     [CRUpdate (in_phase ClusterPhaseCreating sample_record), CollectCluster ''etcd'' ''uid-1'', UUIDNew,
      PodsCreate ''default'' sample_seed_pod, CreateClientService ''etcd'' ''default'' ''uid-1'',
      CreatePeerService ''etcd'' ''default'' ''uid-1'']"
    by (simp_all add: SetPhase_def)
  from a b c d e show ?thesis by blast
qed

end
